theory Spec2Isabelle
  imports Complex_Main
begin

section \<open>Numbers and strings of the host language\<close>

text \<open>
  The editor is TypeScript; its \<^verbatim>\<open>number\<close> values are IEEE 754 doubles. A finite double is
  modelled by the \<^typ>\<open>real\<close> it denotes. The unit converter and the formatter of the
  page (\<^verbatim>\<open>pixelsToMeters\<close>, \<^verbatim>\<open>metersToPixels\<close>, \<^verbatim>\<open>formatMeasurement\<close>) round the result of
  their one multiplication or division to the nearest double, as the source does; the
  geometry around them (sums, products, \<^verbatim>\<open>Math.sqrt\<close>, \<^verbatim>\<open>Math.sin\<close>, \<^verbatim>\<open>Math.cos\<close>,
  \<^verbatim>\<open>Math.atan2\<close>, whose results ECMAScript leaves implementation-approximated) is exact.
  The values \<^verbatim>\<open>NaN\<close> and \<^verbatim>\<open>Infinity\<close> and signed zeros are outside this model; a division
  whose divisor is zero yields \<open>0\<close> in HOL where the source yields \<^verbatim>\<open>Infinity\<close> or \<^verbatim>\<open>NaN\<close>,
  and statements below say where a divisor is assumed non-zero.
\<close>

text \<open>The power of two \<open>2\<^sup>e\<close> for an integer exponent.\<close>

definition pow2 :: "int \<Rightarrow> real" where
  "pow2 e = (if 0 \<le> e then 2 ^ nat e else 1 / 2 ^ nat (- e))"

text \<open>The nearest integer, the even one of two nearest (roundTiesToEven).\<close>

definition roundTiesToEven :: "real \<Rightarrow> int" where
  "roundTiesToEven q =
     (let n = \<lfloor>q\<rfloor>;
          r = q - of_int n
      in if r < 1 / 2 then n else if 1 / 2 < r then n + 1 else if even n then n else n + 1)"

text \<open>
  The binary exponent of a positive number: the \<open>e\<close> with \<open>2\<^sup>e \<le> a < 2\<^sup>e\<^sup>+\<^sup>1\<close>, found by halving
  or doubling.
\<close>

function exponentOf :: "real \<Rightarrow> int" where
  "exponentOf a =
     (if 2 \<le> a then exponentOf (a / 2) + 1
      else if 0 < a \<and> a < 1 then exponentOf (a * 2) - 1
      else 0)"
  by pat_completeness auto

termination
proof (relation "measure (\<lambda>a. nat \<bar>\<lfloor>log 2 a\<rfloor>\<bar>)")
  show "wf (measure (\<lambda>a. nat \<bar>\<lfloor>log 2 a\<rfloor>\<bar>))" by simp
next
  fix a :: real
  assume a: "2 \<le> a"
  have l: "log 2 (a / 2) = log 2 a - 1" using a by (simp add: log_divide)
  have "log 2 2 \<le> log 2 a" using a by (subst log_le_cancel_iff) simp_all
  then have "1 \<le> log 2 a" by simp
  then have "1 \<le> \<lfloor>log 2 a\<rfloor>" by (simp add: le_floor_iff)
  moreover have "\<lfloor>log 2 (a / 2)\<rfloor> = \<lfloor>log 2 a\<rfloor> - 1" by (simp add: l)
  ultimately show "(a / 2, a) \<in> measure (\<lambda>a. nat \<bar>\<lfloor>log 2 a\<rfloor>\<bar>)"
    unfolding in_measure by linarith
next
  fix a :: real
  assume "\<not> 2 \<le> a" and a: "0 < a \<and> a < 1"
  have l: "log 2 (a * 2) = log 2 a + 1" using a by (simp add: log_mult)
  have "log 2 a < log 2 1" using a by (subst log_less_cancel_iff) simp_all
  then have "log 2 a < 0" by simp
  then have "\<lfloor>log 2 a\<rfloor> < 0" by (simp add: floor_less_iff)
  moreover have "\<lfloor>log 2 (a * 2)\<rfloor> = \<lfloor>log 2 a\<rfloor> + 1" by (simp add: l)
  ultimately show "(a * 2, a) \<in> measure (\<lambda>a. nat \<bar>\<lfloor>log 2 a\<rfloor>\<bar>)"
    unfolding in_measure by linarith
qed

text \<open>
  The double that an arithmetic operation returns for the exact result \<open>x\<close>: the nearest
  multiple of the unit in the last place, which is \<open>2\<^sup>e\<^sup>-\<^sup>5\<^sup>2\<close> for \<open>2\<^sup>e \<le> \<bar>x\<bar> < 2\<^sup>e\<^sup>+\<^sup>1\<close> (a
  significand of 53 bits) and \<open>2\<^sup>-\<^sup>1\<^sup>0\<^sup>7\<^sup>4\<close> below \<open>2\<^sup>-\<^sup>1\<^sup>0\<^sup>2\<^sup>2\<close> (the subnormal numbers). The
  source has \<^verbatim>\<open>Infinity\<close> where the rounded value reaches \<open>2\<^sup>1\<^sup>0\<^sup>2\<^sup>4\<close>; statements below bound
  the operands so that it does not.
\<close>

definition roundToDouble :: "real \<Rightarrow> real" where
  "roundToDouble x =
     (if x = 0 then 0
      else (let e = max (exponentOf \<bar>x\<bar>) (- 1022);
                u = pow2 (e - 52)
            in u * of_int (roundTiesToEven (x / u))))"

text \<open>\<^verbatim>\<open>x || d\<close> on numbers: the default \<open>d\<close> replaces a falsy \<open>x\<close>, that is \<open>0\<close>.\<close>

definition js_or :: "real \<Rightarrow> real \<Rightarrow> real" where
  "js_or x d = (if x = 0 then d else x)"

text \<open>A point \<^verbatim>\<open>{x, y}\<close>.\<close>

type_synonym point = "real \<times> real"

section \<open>The canvas component (src/components/editor/CanvasEditor.tsx)\<close>

text \<open>
  A snapshot of the fields of a fabric object that this component reads: its identity
  (\<^verbatim>\<open>obj !== target\<close> compares references), \<^verbatim>\<open>type\<close>, position, base size, scale
  factors, \<^verbatim>\<open>selectable\<close>, the custom \<^verbatim>\<open>id\<close> (absent on objects the component did not
  tag) and, on polygons, \<^verbatim>\<open>points\<close>.
\<close>

record CanvasObject =
  c_ref :: nat
  c_type :: string
  c_left :: real
  c_top :: real
  c_width :: real
  c_height :: real
  c_scaleX :: real
  c_scaleY :: real
  c_selectable :: bool
  c_id :: "string option"
  c_points :: "point list option"

text \<open>\<^verbatim>\<open>const BASE_PIXELS_PER_METER = 10\<close>, commented "Pixels per meter at scale 1:100".\<close>

definition BASE_PIXELS_PER_METER :: real where
  "BASE_PIXELS_PER_METER = 10"

text \<open>
  The conversion factor the component uses wherever it names one
  (\<^verbatim>\<open>const pixelsPerMeter = scale * BASE_PIXELS_PER_METER\<close> in \<^verbatim>\<open>updateDimensionLabels\<close> and
  \<^verbatim>\<open>addFromTemplate\<close>, and the last argument of \<^verbatim>\<open>snapToGrid\<close> in the movement handler).
\<close>

definition canvasPixelsPerMeter :: "real \<Rightarrow> real" where
  "canvasPixelsPerMeter scale = scale * BASE_PIXELS_PER_METER"

record Measurements =
  area :: real
  perimeter :: real

text \<open>
  \<^verbatim>\<open>updateMeasurements\<close> (lines 216-239). \<^verbatim>\<open>calculatePolygonArea\<close> and \<^verbatim>\<open>calculateDistance\<close>
  are imported from \<^verbatim>\<open>@/lib/utils\<close>, which is not among the sources, and are parameters.
  The perimeter loop runs over the indices \<open>0 ..< length points\<close> with the wrap-around
  \<^verbatim>\<open>(i + 1) % points.length\<close>.
\<close>

definition updateMeasurements ::
  "(point list \<Rightarrow> real) \<Rightarrow> (point \<Rightarrow> point \<Rightarrow> real) \<Rightarrow> real \<Rightarrow> CanvasObject \<Rightarrow> Measurements" where
  "updateMeasurements calculatePolygonArea calculateDistance scale obj =
     (if c_type obj = ''rect'' then
        (let w = js_or (c_width obj) 0 * js_or (c_scaleX obj) 1;
             h = js_or (c_height obj) 0 * js_or (c_scaleY obj) 1
         in \<lparr>area = (w * h) / (scale * scale * 10000),
             perimeter = (2 * (w + h)) / (scale * 100)\<rparr>)
      else if c_type obj = ''polygon'' then
        (case c_points obj of
           None \<Rightarrow> \<lparr>area = 0, perimeter = 0\<rparr>
         | Some ps \<Rightarrow>
             \<lparr>area = calculatePolygonArea ps / (scale * scale * 10000),
              perimeter =
                fold (\<lambda>i acc. acc + calculateDistance (ps ! i) (ps ! ((i + 1) mod length ps)) / (scale * 100))
                  [0 ..< length ps] 0\<rparr>)
      else \<lparr>area = 0, perimeter = 0\<rparr>)"

text \<open>The rectangle that \<^verbatim>\<open>addRectangle\<close> creates: 200 by 150 pixels, unscaled.\<close>

definition rect_200_150 :: CanvasObject where
  "rect_200_150 =
     \<lparr>c_ref = 0, c_type = ''rect'', c_left = 100, c_top = 100, c_width = 200, c_height = 150,
      c_scaleX = 1, c_scaleY = 1, c_selectable = True, c_id = None, c_points = None\<rparr>"

subsection \<open>Movement of a shape: snapping and alignment guides\<close>

text \<open>
  The movement handler calls \<^verbatim>\<open>snapToGrid\<close> and \<^verbatim>\<open>findAlignmentGuides\<close> and reads
  \<^verbatim>\<open>DEFAULT_GRID_SETTINGS\<close>, all of \<^verbatim>\<open>@/lib/drawingTools\<close>, which is not among the sources:
  the two functions are parameters of the handler. \<open>GridSettings\<close> holds the four settings
  the handler reads, \<open>BoundingBox\<close> the object literals it builds.
\<close>

record GridSettings =
  gs_snapToGrid :: bool
  gs_autoAlign :: bool
  gs_size :: real
  gs_alignThreshold :: real

record BoundingBox =
  b_left :: real
  b_top :: real
  b_width :: real
  b_height :: real
  b_id :: string

text \<open>
  Modelled from the spec: the type \<^verbatim>\<open>AlignmentGuide\<close>, declared in \<^verbatim>\<open>@/lib/drawingTools\<close>, which
  is missing; the spec gives it as \<^verbatim>\<open>{type: vertical|horizontal, position: number, relatedId}\<close>.
  The handler reads \<^verbatim>\<open>type\<close> and \<^verbatim>\<open>position\<close> and treats every type other than \<^verbatim>\<open>'vertical'\<close> as
  horizontal.
\<close>

datatype GuideType = Vertical | Horizontal

record AlignmentGuide =
  guideType :: GuideType
  position :: real
  relatedId :: string

text \<open>
  The component's state: the canvas objects in insertion order, the React state
  \<^verbatim>\<open>measurements\<close>, \<^verbatim>\<open>alignmentGuides\<close>, \<^verbatim>\<open>gridSettings\<close> and \<^verbatim>\<open>dimensionLabels\<close> (of a type
  declared in the missing module), and the store's \<^verbatim>\<open>scale\<close>.
\<close>

record 'd CanvasState =
  cs_objects :: "CanvasObject list"
  cs_measurements :: Measurements
  cs_alignmentGuides :: "AlignmentGuide list"
  cs_gridSettings :: GridSettings
  cs_dimensionLabels :: "'d list"
  cs_scale :: real

text \<open>\<^verbatim>\<open>target.set(...)\<close> changes the object that the canvas holds.\<close>

definition setTarget :: "CanvasObject \<Rightarrow> CanvasObject list \<Rightarrow> CanvasObject list" where
  "setTarget t objs = map (\<lambda>x. if c_ref x = c_ref t then t else x) objs"

text \<open>\<^verbatim>\<open>(obj as any).id || fallback\<close>: an absent or empty id is replaced.\<close>

definition idOr :: "string option \<Rightarrow> string \<Rightarrow> string" where
  "idOr ident fallback = (case ident of None \<Rightarrow> fallback | Some i \<Rightarrow> if i = [] then fallback else i)"

text \<open>The first step of the handler (lines 97-103): the snapped position, written to the target.\<close>

definition snapStep ::
  "(real \<Rightarrow> real \<Rightarrow> real \<Rightarrow> real \<Rightarrow> point) \<Rightarrow> GridSettings \<Rightarrow> real \<Rightarrow> CanvasObject \<Rightarrow> point \<times> CanvasObject" where
  "snapStep snapToGrid gs scale target =
     (let left = js_or (c_left target) 0;
          top = js_or (c_top target) 0
      in if gs_snapToGrid gs then
           (let snapped = snapToGrid left top (gs_size gs) (scale * BASE_PIXELS_PER_METER)
            in (snapped, target\<lparr>c_left := fst snapped, c_top := snd snapped\<rparr>))
         else ((left, top), target))"

text \<open>
  The bounding boxes of the handler (lines 107-127): the other objects are those that are
  not the target, are selectable and are not lines; an object without an id gets
  \<^verbatim>\<open>Math.random().toString()\<close>, here \<open>rnd\<close> at its index.
\<close>

definition otherObjects :: "CanvasObject \<Rightarrow> CanvasObject list \<Rightarrow> CanvasObject list" where
  "otherObjects target objs =
     filter (\<lambda>obj. c_ref obj \<noteq> c_ref target \<and> c_selectable obj \<and> c_type obj \<noteq> ''line'') objs"

definition currentBounds :: "point \<Rightarrow> CanvasObject \<Rightarrow> BoundingBox" where
  "currentBounds pos target =
     \<lparr>b_left = fst pos, b_top = snd pos,
      b_width = js_or (c_width target) 0 * js_or (c_scaleX target) 1,
      b_height = js_or (c_height target) 0 * js_or (c_scaleY target) 1,
      b_id = idOr (c_id target) ''current''\<rparr>"

definition otherBounds :: "(nat \<Rightarrow> string) \<Rightarrow> CanvasObject list \<Rightarrow> BoundingBox list" where
  "otherBounds rnd objs =
     map (\<lambda>(i, obj).
            \<lparr>b_left = js_or (c_left obj) 0, b_top = js_or (c_top obj) 0,
             b_width = js_or (c_width obj) 0 * js_or (c_scaleX obj) 1,
             b_height = js_or (c_height obj) 0 * js_or (c_scaleY obj) 1,
             b_id = idOr (c_id obj) (rnd i)\<rparr>)
       (enumerate 0 objs)"

text \<open>
  The correction (lines 133-145): each guide whose position is nearer to the position
  of the first step than the threshold moves the target onto it.
\<close>

definition applyGuide :: "real \<Rightarrow> point \<Rightarrow> AlignmentGuide \<Rightarrow> CanvasObject \<Rightarrow> CanvasObject" where
  "applyGuide threshold pos guide target =
     (if guideType guide = Vertical then
        (if \<bar>fst pos - position guide\<bar> < threshold then target\<lparr>c_left := position guide\<rparr> else target)
      else
        (if \<bar>snd pos - position guide\<bar> < threshold then target\<lparr>c_top := position guide\<rparr> else target))"

text \<open>
  The \<^verbatim>\<open>object:moving\<close> handler (lines 90-149): the moved target, and the state with the
  target replaced on the canvas and, when auto-align is on, the new guides.
\<close>

definition objectMoving ::
  "(real \<Rightarrow> real \<Rightarrow> real \<Rightarrow> real \<Rightarrow> point) \<Rightarrow> (BoundingBox \<Rightarrow> BoundingBox list \<Rightarrow> real \<Rightarrow> AlignmentGuide list)
     \<Rightarrow> (nat \<Rightarrow> string) \<Rightarrow> 'd CanvasState \<Rightarrow> CanvasObject \<Rightarrow> CanvasObject \<times> 'd CanvasState" where
  "objectMoving snapToGrid findAlignmentGuides rnd st target =
     (let gs = cs_gridSettings st;
          (pos, target1) = snapStep snapToGrid gs (cs_scale st) target
      in if gs_autoAlign gs then
           (let guides =
                  findAlignmentGuides (currentBounds pos target1)
                    (otherBounds rnd (otherObjects target1 (cs_objects st))) (gs_alignThreshold gs);
                target2 = fold (applyGuide (gs_alignThreshold gs) pos) guides target1
            in (target2, st\<lparr>cs_objects := setTarget target2 (cs_objects st), cs_alignmentGuides := guides\<rparr>))
         else (target1, st\<lparr>cs_objects := setTarget target1 (cs_objects st)\<rparr>))"

text \<open>
  The two \<^verbatim>\<open>object:modified\<close> listeners (lines 82-87 and 151-153), in the order of their
  registration: the measurements and dimension labels of the target are refreshed
  (\<^verbatim>\<open>calculateDimensions\<close> is of the missing module; the bounds it is given carry no id,
  here the empty one), then the guides are cleared.
\<close>

definition objectModified ::
  "(point list \<Rightarrow> real) \<Rightarrow> (point \<Rightarrow> point \<Rightarrow> real) \<Rightarrow> (BoundingBox \<Rightarrow> real \<Rightarrow> 'd list)
     \<Rightarrow> 'd CanvasState \<Rightarrow> CanvasObject \<Rightarrow> 'd CanvasState" where
  "objectModified calculatePolygonArea calculateDistance calculateDimensions st target =
     (let st1 = st\<lparr>cs_measurements := updateMeasurements calculatePolygonArea calculateDistance (cs_scale st) target\<rparr>;
          bounds =
            \<lparr>b_left = js_or (c_left target) 0, b_top = js_or (c_top target) 0,
             b_width = js_or (c_width target) 0 * js_or (c_scaleX target) 1,
             b_height = js_or (c_height target) 0 * js_or (c_scaleY target) 1, b_id = []\<rparr>;
          st2 = st1\<lparr>cs_dimensionLabels := calculateDimensions bounds (cs_scale st * BASE_PIXELS_PER_METER)\<rparr>
      in st2\<lparr>cs_alignmentGuides := []\<rparr>)"

subsection \<open>A movement for the examples\<close>

text \<open>
  Stand-ins for the two functions of the missing module, used in examples only: a snap
  that rounds each coordinate to the nearest multiple of the cell size, and a detector
  that reports the left edges of the other boxes nearer than the threshold to the moving
  box's left edge. With them, a target at \<open>(98, 203)\<close> beside an object whose left edge is at
  \<open>103\<close>, with cell size 10 and threshold 5.
\<close>

definition exampleSnap :: "real \<Rightarrow> real \<Rightarrow> real \<Rightarrow> real \<Rightarrow> point" where
  "exampleSnap x y cell ppm =
     (cell * of_int \<lfloor>x / cell + 1 / 2\<rfloor>, cell * of_int \<lfloor>y / cell + 1 / 2\<rfloor>)"

definition exampleLeftGuides :: "BoundingBox \<Rightarrow> BoundingBox list \<Rightarrow> real \<Rightarrow> AlignmentGuide list" where
  "exampleLeftGuides moving others threshold =
     map (\<lambda>b. \<lparr>guideType = Vertical, position = b_left b, relatedId = b_id b\<rparr>)
       (filter (\<lambda>b. \<bar>b_left moving - b_left b\<bar> < threshold) others)"

definition movingTarget :: CanvasObject where
  "movingTarget =
     \<lparr>c_ref = 0, c_type = ''rect'', c_left = 98, c_top = 203, c_width = 50, c_height = 50,
      c_scaleX = 1, c_scaleY = 1, c_selectable = True, c_id = Some ''t'', c_points = None\<rparr>"

definition movingCanvas :: "nat CanvasState" where
  "movingCanvas =
     \<lparr>cs_objects =
        [movingTarget,
         \<lparr>c_ref = 1, c_type = ''rect'', c_left = 103, c_top = 400, c_width = 20, c_height = 20,
          c_scaleX = 1, c_scaleY = 1, c_selectable = True, c_id = Some ''o1'', c_points = None\<rparr>],
      cs_measurements = \<lparr>area = 0, perimeter = 0\<rparr>,
      cs_alignmentGuides = [],
      cs_gridSettings = \<lparr>gs_snapToGrid = True, gs_autoAlign = True, gs_size = 10, gs_alignThreshold = 5\<rparr>,
      cs_dimensionLabels = [],
      cs_scale = 1\<rparr>"

subsection \<open>Runs of the component\<close>











section \<open>The editor page (src/app/editor/page.tsx)\<close>

subsection \<open>Platform functions\<close>

text \<open>
  \<^verbatim>\<open>Math.atan2(y, x)\<close> on reals: the angle of the vector \<open>(x, y)\<close> in \<open>(-\<pi>, \<pi>]\<close>, and \<open>0\<close> at the
  origin (ECMAScript returns \<open>+0\<close> for \<^verbatim>\<open>Math.atan2(0, 0)\<close>).
\<close>

definition atan2 :: "real \<Rightarrow> real \<Rightarrow> real" where
  "atan2 y x =
     (if 0 < x then arctan (y / x)
      else if x < 0 then (if 0 \<le> y then arctan (y / x) + pi else arctan (y / x) - pi)
      else if 0 < y then pi / 2
      else if y < 0 then - (pi / 2)
      else 0)"

text \<open>The decimal digits of a natural number, as ECMAScript prints an integer.\<close>

definition digitChar :: "nat \<Rightarrow> char" where
  "digitChar d =
     (if d = 0 then CHR ''0'' else if d = 1 then CHR ''1'' else if d = 2 then CHR ''2''
      else if d = 3 then CHR ''3'' else if d = 4 then CHR ''4'' else if d = 5 then CHR ''5''
      else if d = 6 then CHR ''6'' else if d = 7 then CHR ''7'' else if d = 8 then CHR ''8''
      else CHR ''9'')"

fun digitsOf :: "nat \<Rightarrow> string" where
  "digitsOf n = (if n < 10 then [digitChar n] else digitsOf (n div 10) @ [digitChar (n mod 10)])"

text \<open>
  \<^verbatim>\<open>Number.prototype.toFixed(f)\<close> as ECMAScript specifies it: the sign is split off; an
  absolute value of at least \<open>10\<^sup>2\<^sup>1\<close> is printed by \<^verbatim>\<open>Number::toString\<close>, which is the
  parameter \<open>numberToString\<close> (it depends on the binary representation); otherwise \<open>n\<close> is
  the integer for which \<open>n / 10\<^sup>f - x\<close> is closest to zero, the larger one of two, its
  digits are padded with zeros to \<open>f + 1\<close> places and a point is set before the last \<open>f\<close>.
\<close>

definition toFixed :: "(real \<Rightarrow> string) \<Rightarrow> real \<Rightarrow> nat \<Rightarrow> string" where
  "toFixed numberToString x f =
     (let s = (if x < 0 then ''-'' else []);
          a = \<bar>x\<bar>
      in if 10 ^ 21 \<le> a then s @ numberToString a
         else
           (let n = nat \<lfloor>a * 10 ^ f + 1 / 2\<rfloor>;
                m = digitsOf n
            in if f \<noteq> 0 then
                 (let m2 = (if length m \<le> f then replicate (f + 1 - length m) (CHR ''0'') @ m else m);
                      k = length m2
                  in s @ take (k - f) m2 @ ''.'' @ drop (k - f) m2)
               else s @ m))"

subsection \<open>Scale and unit conversion\<close>

datatype Tool =
  ToolSelect | ToolRectangle | ToolCircle | ToolLine | ToolPolygon | ToolText | ToolPan
  | ToolMeasure | ToolParcel

record Scale =
  label :: string
  scaleValue :: real
  pixelsPerMeter :: real


text \<open>
  \<^verbatim>\<open>pixelsToMeters\<close> and \<^verbatim>\<open>metersToPixels\<close>: one division and one multiplication of
  doubles.
\<close>

definition pixelsToMeters :: "Scale \<Rightarrow> real \<Rightarrow> real" where
  "pixelsToMeters currentScale pixels = roundToDouble (pixels / pixelsPerMeter currentScale)"

definition metersToPixels :: "Scale \<Rightarrow> real \<Rightarrow> real" where
  "metersToPixels currentScale meters = roundToDouble (meters * pixelsPerMeter currentScale)"

text \<open>
  \<^verbatim>\<open>formatMeasurement\<close>: below one meter the product \<^verbatim>\<open>meters * 100\<close>, a double, is printed
  by \<^verbatim>\<open>toFixed(0)\<close>; \<^verbatim>\<open>toFixed\<close> itself works on the exact value of its double.
\<close>

definition formatMeasurement :: "(real \<Rightarrow> string) \<Rightarrow> real \<Rightarrow> string" where
  "formatMeasurement numberToString meters =
     (if meters < 1 then toFixed numberToString (roundToDouble (meters * 100)) 0 @ '' cm''
      else toFixed numberToString meters 2 @ '' m'')"

definition calculateDistance :: "Scale \<Rightarrow> real \<Rightarrow> real \<Rightarrow> real \<Rightarrow> real \<Rightarrow> real" where
  "calculateDistance currentScale px1 py1 px2 py2 =
     pixelsToMeters currentScale (sqrt ((px2 - px1)\<^sup>2 + (py2 - py1)\<^sup>2))"

subsection \<open>Fabric objects and the editor's state\<close>

text \<open>
  What the page passes to a fabric constructor and reads back from an object: a line's
  end points, a rectangle's position, base size and scale factors, a circle's position,
  radius and horizontal scale factor, a polygon's local points (with the position where
  the page gives one) and a text's content, position and angle. Fields that only the
  library computes are not read by the page and are left out.
\<close>

datatype Geometry =
    Line (g_x1: real) (g_y1: real) (g_x2: real) (g_y2: real)
  | Rect (g_left: real) (g_top: real) (g_width: real) (g_height: real) (g_scaleX: real) (g_scaleY: real)
  | Circle (g_left: real) (g_top: real) (g_radius: real) (g_scaleX: real)
  | Polygon (g_points: "point list") (g_position: "point option")
  | Text (g_text: string) (g_left: real) (g_top: real) (g_angle: real)

text \<open>
  A fabric object: \<open>o_ref\<close> stands for its identity (\<^verbatim>\<open>canvas.remove\<close> finds an object by
  reference), \<open>o_id\<close> is the custom \<^verbatim>\<open>id\<close> the page tags shapes with, \<open>o_isMeasurement\<close> and
  \<open>o_parentId\<close> are the fields of \<^verbatim>\<open>MeasurementLabel\<close>. Of the styling options the stroke,
  fill and background colours, the stroke width and the two interaction flags are kept
  (\<open>None\<close>: not given to the constructor); font, padding, dash pattern and origin are
  not, nor are the tags \<^verbatim>\<open>isParcel\<close> and \<^verbatim>\<open>templateType\<close>, which the callbacks below never read.
\<close>

record FabricObject =
  o_ref :: nat
  o_geometry :: Geometry
  o_id :: "string option"
  o_isMeasurement :: bool
  o_parentId :: "string option"
  o_stroke :: "string option"
  o_fill :: "string option"
  o_backgroundColor :: "string option"
  o_strokeWidth :: "real option"
  o_selectable :: bool
  o_evented :: bool

definition o_type :: "FabricObject \<Rightarrow> string" where
  "o_type obj =
     (case o_geometry obj of
        Line _ _ _ _ \<Rightarrow> ''line''
      | Rect _ _ _ _ _ _ \<Rightarrow> ''rect''
      | Circle _ _ _ _ \<Rightarrow> ''circle''
      | Polygon _ _ \<Rightarrow> ''polygon''
      | Text _ _ _ _ \<Rightarrow> ''text'')"

text \<open>A transform matrix \<^verbatim>\<open>[a, b, c, d, e, f]\<close> and \<^verbatim>\<open>fabric.util.transformPoint\<close>.\<close>

type_synonym matrix = "real \<times> real \<times> real \<times> real \<times> real \<times> real"

fun transformPoint :: "point \<Rightarrow> matrix \<Rightarrow> point" where
  "transformPoint (x, y) (a, b, c, d, e, f) = (a * x + c * y + e, b * x + d * y + f)"

text \<open>
  The two library functions whose result the page only passes on: \<^verbatim>\<open>Number::toString\<close>
  behind \<^verbatim>\<open>toFixed\<close>, and \<^verbatim>\<open>calcTransformMatrix\<close> of a polygon.
\<close>

record Platform =
  numberToString :: "real \<Rightarrow> string"
  calcTransformMatrix :: "FabricObject \<Rightarrow> matrix"

text \<open>
  The state the page's callbacks share: \<open>canvas\<close> is \<^verbatim>\<open>fabricRef.current\<close> (\<open>None\<close> before
  the canvas exists) as the list of its objects in insertion order, \<open>measurementLabels\<close>
  is \<^verbatim>\<open>measurementLabelsRef.current\<close>, \<open>nextRef\<close> numbers the objects created so far; the
  other fields are the React state of the same names, updated at once.
\<close>

record EditorState =
  canvas :: "FabricObject list option"
  measurementLabels :: "string \<Rightarrow> FabricObject list option"
  nextRef :: nat
  currentScale :: Scale
  activeTool :: Tool
  activeColor :: string
  strokeWidth :: real
  isDrawing :: bool
  drawingStart :: "point option"
  tempShape :: "FabricObject option"
  currentMeasurement :: string
  mousePos :: point
  polygonPoints :: "point list"

text \<open>\<^verbatim>\<open>canvas.remove(obj)\<close>: the first entry that is this object is spliced out.\<close>

fun canvasRemove :: "FabricObject \<Rightarrow> FabricObject list \<Rightarrow> FabricObject list" where
  "canvasRemove m [] = []"
| "canvasRemove m (x # xs) = (if o_ref x = o_ref m then xs else x # canvasRemove m xs)"

text \<open>An annotation primitive: not selectable, not evented, tagged with its parent.\<close>

definition measurementObject ::
  "nat \<Rightarrow> Geometry \<Rightarrow> string \<Rightarrow> string option \<Rightarrow> string option \<Rightarrow> string option \<Rightarrow> real option \<Rightarrow> FabricObject" where
  "measurementObject r g parent strokeColor fillColor background w =
     \<lparr>o_ref = r, o_geometry = g, o_id = None, o_isMeasurement = True, o_parentId = Some parent,
      o_stroke = strokeColor, o_fill = fillColor, o_backgroundColor = background,
      o_strokeWidth = w, o_selectable = False, o_evented = False\<rparr>"

subsection \<open>The dimension annotation generator\<close>

text \<open>
  The label angle of \<^verbatim>\<open>createDimensionLine\<close> (lines 216-217): \<^verbatim>\<open>textAngle\<close> is the edge
  angle in degrees, \<^verbatim>\<open>adjustedAngle\<close> adds 180 when it lies outside \<open>[-90, 90]\<close>.
\<close>

definition textAngle :: "real \<Rightarrow> real \<Rightarrow> real \<Rightarrow> real \<Rightarrow> real" where
  "textAngle px1 py1 px2 py2 = (atan2 (py2 - py1) (px2 - px1) * 180) / pi"

definition adjustedAngle :: "real \<Rightarrow> real \<Rightarrow> real \<Rightarrow> real \<Rightarrow> real" where
  "adjustedAngle px1 py1 px2 py2 =
     (let t = textAngle px1 py1 px2 py2 in if 90 < t \<or> t < - 90 then t + 180 else t)"

text \<open>
  \<^verbatim>\<open>createDimensionLine\<close> (lines 131-240). \<open>dimensionElements\<close> is its computation of the
  six primitives (dimension line, two extension lines, two arrowheads, label), the
  objects numbered from \<open>r\<close> in the order of their creation; \<open>createDimensionLine\<close> returns
  them and adds them to the canvas, or returns \<^verbatim>\<open>[]\<close> when there is no canvas.
\<close>

definition dimensionElements ::
  "Platform \<Rightarrow> Scale \<Rightarrow> nat \<Rightarrow> real \<Rightarrow> real \<Rightarrow> real \<Rightarrow> real \<Rightarrow> string \<Rightarrow> real \<Rightarrow> string
     \<Rightarrow> FabricObject list" where
  "dimensionElements pf scale r px1 py1 px2 py2 parent offset color =
     (let distance = calculateDistance scale px1 py1 px2 py2;
          labelText = formatMeasurement (numberToString pf) distance;
          theta = atan2 (py2 - py1) (px2 - px1);
          midX = (px1 + px2) / 2;
          midY = (py1 + py2) / 2;
          offsetX = sin theta * offset;
          offsetY = - cos theta * offset;
          dimX1 = px1 + offsetX;
          dimY1 = py1 + offsetY;
          dimX2 = px2 + offsetX;
          dimY2 = py2 + offsetY;
          dimMidX = midX + offsetX;
          dimMidY = midY + offsetY;
          dimensionLine =
            measurementObject r (Line dimX1 dimY1 dimX2 dimY2) parent (Some color) None None (Some 1);
          ext1 =
            measurementObject (r + 1) (Line px1 py1 dimX1 dimY1) parent (Some color) None None (Some (1 / 2));
          ext2 =
            measurementObject (r + 2) (Line px2 py2 dimX2 dimY2) parent (Some color) None None (Some (1 / 2));
          arrowSize = 6;
          arrow1Points =
            [(dimX1, dimY1),
             (dimX1 + cos (theta - pi / 6) * arrowSize, dimY1 + sin (theta - pi / 6) * arrowSize),
             (dimX1 + cos (theta + pi / 6) * arrowSize, dimY1 + sin (theta + pi / 6) * arrowSize)];
          arrow2Points =
            [(dimX2, dimY2),
             (dimX2 - cos (theta - pi / 6) * arrowSize, dimY2 - sin (theta - pi / 6) * arrowSize),
             (dimX2 - cos (theta + pi / 6) * arrowSize, dimY2 - sin (theta + pi / 6) * arrowSize)];
          arrow1 = measurementObject (r + 3) (Polygon arrow1Points None) parent None (Some color) None None;
          arrow2 = measurementObject (r + 4) (Polygon arrow2Points None) parent None (Some color) None None;
          textLabel =
            measurementObject (r + 5)
              (Text labelText dimMidX (dimMidY - 8) (adjustedAngle px1 py1 px2 py2))
              parent None (Some ''#0f172a'') (Some color) None
      in [dimensionLine, ext1, ext2, arrow1, arrow2, textLabel])"

definition createDimensionLine ::
  "Platform \<Rightarrow> EditorState \<Rightarrow> real \<Rightarrow> real \<Rightarrow> real \<Rightarrow> real \<Rightarrow> string \<Rightarrow> real \<Rightarrow> string
     \<Rightarrow> FabricObject list \<times> EditorState" where
  "createDimensionLine pf st px1 py1 px2 py2 parent offset color =
     (case canvas st of
        None \<Rightarrow> ([], st)
      | Some objs \<Rightarrow>
          (let elements =
                 dimensionElements pf (currentScale st) (nextRef st) px1 py1 px2 py2 parent offset color
           in (elements, st\<lparr>canvas := Some (objs @ elements), nextRef := nextRef st + 6\<rparr>)))"

subsection \<open>Annotation sets per shape\<close>

text \<open>
  \<^verbatim>\<open>addRectMeasurements\<close> (lines 243-258): the bottom edge, then the right edge, each at
  offset 25; the twelve primitives are stored under the shape's id.
\<close>

definition addRectMeasurements :: "Platform \<Rightarrow> EditorState \<Rightarrow> FabricObject \<Rightarrow> string \<Rightarrow> EditorState" where
  "addRectMeasurements pf st rect ident =
     (let g = o_geometry rect;
          left = js_or (g_left g) 0;
          top = js_or (g_top g) 0;
          width = js_or (g_width g) 0 * js_or (g_scaleX g) 1;
          height = js_or (g_height g) 0 * js_or (g_scaleY g) 1;
          (bottomEls, st1) =
            createDimensionLine pf st left (top + height) (left + width) (top + height) ident 25 ''#fbbf24'';
          (rightEls, st2) =
            createDimensionLine pf st1 (left + width) top (left + width) (top + height) ident 25 ''#fbbf24''
      in st2\<lparr>measurementLabels := (measurementLabels st2)(ident \<mapsto> bottomEls @ rightEls)\<rparr>)"

text \<open>
  \<^verbatim>\<open>addPolygonMeasurements\<close> (lines 261-292): nothing happens below two points; otherwise
  each edge \<open>i\<close>, from point \<open>i\<close> to point \<^verbatim>\<open>(i + 1) % points.length\<close>, is transformed to canvas
  coordinates and annotated at offset 25.
\<close>

definition polygonEdgeStep ::
  "Platform \<Rightarrow> point list \<Rightarrow> matrix \<Rightarrow> string \<Rightarrow> nat \<Rightarrow> FabricObject list \<times> EditorState
     \<Rightarrow> FabricObject list \<times> EditorState" where
  "polygonEdgeStep pf pts mtx ident i acc =
     (let p1 = pts ! i;
          p2 = pts ! ((i + 1) mod length pts);
          transformed1 = transformPoint p1 mtx;
          transformed2 = transformPoint p2 mtx;
          (els, st') =
            createDimensionLine pf (snd acc) (fst transformed1) (snd transformed1)
              (fst transformed2) (snd transformed2) ident 25 ''#22c55e''
      in (fst acc @ els, st'))"

definition addPolygonMeasurements :: "Platform \<Rightarrow> EditorState \<Rightarrow> FabricObject \<Rightarrow> string \<Rightarrow> EditorState" where
  "addPolygonMeasurements pf st polygon ident =
     (let pts = g_points (o_geometry polygon)
      in if length pts < 2 then st
         else
           (let mtx = calcTransformMatrix pf polygon;
                (measurements, st') = fold (polygonEdgeStep pf pts mtx ident) [0 ..< length pts] ([], st)
            in st'\<lparr>measurementLabels := (measurementLabels st')(ident \<mapsto> measurements)\<rparr>))"

text \<open>\<^verbatim>\<open>addLineMeasurement\<close> (lines 295-303): one annotation at offset 20.\<close>

definition addLineMeasurement :: "Platform \<Rightarrow> EditorState \<Rightarrow> FabricObject \<Rightarrow> string \<Rightarrow> EditorState" where
  "addLineMeasurement pf st line ident =
     (let g = o_geometry line;
          (measurements, st') =
            createDimensionLine pf st (js_or (g_x1 g) 0) (js_or (g_y1 g) 0) (js_or (g_x2 g) 0) (js_or (g_y2 g) 0)
              ident 20 ''#fbbf24''
      in st'\<lparr>measurementLabels := (measurementLabels st')(ident \<mapsto> measurements)\<rparr>)"

text \<open>
  The two characters before the blank in a circle's label, as the source file holds them:
  the UTF-8 bytes \<^verbatim>\<open>E2 88 9A\<close> and \<^verbatim>\<open>C3 B2\<close>.
\<close>

definition diameterSign :: string where
  "diameterSign =
     [char_of (226 :: nat), char_of (136 :: nat), char_of (154 :: nat), char_of (195 :: nat),
      char_of (178 :: nat)]"

text \<open>
  \<^verbatim>\<open>addCircleMeasurements\<close> (lines 306-348): a horizontal diameter line and a label above
  the circle; nothing happens without a canvas.
\<close>

definition addCircleMeasurements :: "Platform \<Rightarrow> EditorState \<Rightarrow> FabricObject \<Rightarrow> string \<Rightarrow> EditorState" where
  "addCircleMeasurements pf st circle ident =
     (case canvas st of
        None \<Rightarrow> st
      | Some objs \<Rightarrow>
          (let g = o_geometry circle;
               centerX = js_or (g_left g) 0 + js_or (g_radius g) 0;
               centerY = js_or (g_top g) 0 + js_or (g_radius g) 0;
               radius = js_or (g_radius g) 0 * js_or (g_scaleX g) 1;
               diameter = pixelsToMeters (currentScale st) (radius * 2);
               r = nextRef st;
               diameterLine =
                 measurementObject r (Line (centerX - radius) centerY (centerX + radius) centerY) ident
                   (Some ''#fbbf24'') None None (Some 1);
               textLabel =
                 measurementObject (r + 1)
                   (Text (diameterSign @ '' '' @ formatMeasurement (numberToString pf) diameter)
                      centerX (centerY - radius - 20) 0)
                   ident None (Some ''#0f172a'') (Some ''#fbbf24'') None;
               measurements = [diameterLine, textLabel]
           in st\<lparr>canvas := Some (objs @ measurements), nextRef := r + 2,
                 measurementLabels := (measurementLabels st)(ident \<mapsto> measurements)\<rparr>))"

text \<open>
  \<^verbatim>\<open>removeMeasurements\<close> (lines 351-360): every stored primitive of the id leaves the
  canvas and the id leaves the map; an empty stored list is still a stored list.
\<close>

definition removeMeasurements :: "EditorState \<Rightarrow> string \<Rightarrow> EditorState" where
  "removeMeasurements st ident =
     (case canvas st of
        None \<Rightarrow> st
      | Some objs \<Rightarrow>
          (case measurementLabels st ident of
             None \<Rightarrow> st
           | Some measurements \<Rightarrow>
               st\<lparr>canvas := Some (fold canvasRemove measurements objs),
                  measurementLabels := (measurementLabels st)(ident := None)\<rparr>))"

text \<open>
  \<^verbatim>\<open>updateObjectMeasurements\<close> (lines 363-378), the handler of \<^verbatim>\<open>object:modified\<close>,
  \<^verbatim>\<open>object:scaling\<close> and \<^verbatim>\<open>object:moving\<close>. An object without an id, or with the empty
  id, is left alone.
\<close>

definition updateObjectMeasurements :: "Platform \<Rightarrow> EditorState \<Rightarrow> FabricObject \<Rightarrow> EditorState" where
  "updateObjectMeasurements pf st obj =
     (case o_id obj of
        None \<Rightarrow> st
      | Some ident \<Rightarrow>
          if ident = [] then st
          else
            (let st1 = removeMeasurements st ident
             in if o_type obj = ''rect'' then addRectMeasurements pf st1 obj ident
                else if o_type obj = ''polygon'' then addPolygonMeasurements pf st1 obj ident
                else if o_type obj = ''line'' then addLineMeasurement pf st1 obj ident
                else if o_type obj = ''circle'' then addCircleMeasurements pf st1 obj ident
                else st1))"

subsection \<open>Drawing with the pointer\<close>

text \<open>A shape or preview the page draws: no measurement tag, colours and width as given.\<close>

definition drawnObject ::
  "nat \<Rightarrow> Geometry \<Rightarrow> string option \<Rightarrow> string option \<Rightarrow> string option \<Rightarrow> real \<Rightarrow> bool \<Rightarrow> FabricObject" where
  "drawnObject r g ident strokeColor fillColor w interactive =
     \<lparr>o_ref = r, o_geometry = g, o_id = ident, o_isMeasurement = False, o_parentId = None,
      o_stroke = strokeColor, o_fill = fillColor, o_backgroundColor = None,
      o_strokeWidth = Some w, o_selectable = interactive, o_evented = interactive\<rparr>"

text \<open>
  The two characters between the sides in the live rectangle read-out, as the source file
  holds them: the UTF-8 bytes \<^verbatim>\<open>E2 88 9A\<close> and \<^verbatim>\<open>C3 B3\<close>.
\<close>

definition timesSign :: string where
  "timesSign =
     [char_of (226 :: nat), char_of (136 :: nat), char_of (154 :: nat), char_of (195 :: nat),
      char_of (179 :: nat)]"

text \<open>
  The three pointer handlers are registered only when the canvas exists. \<^verbatim>\<open>handleMouseDown\<close>
  (lines 598-611): a click with the polygon or parcel tool places a point, any other
  drawing tool starts a drag.
\<close>

definition handleMouseDown :: "EditorState \<Rightarrow> point \<Rightarrow> EditorState" where
  "handleMouseDown st pointer =
     (if canvas st = None then st
      else if activeTool st = ToolSelect \<or> activeTool st = ToolPan then st
      else if activeTool st = ToolPolygon \<or> activeTool st = ToolParcel then
        st\<lparr>polygonPoints := polygonPoints st @ [pointer]\<rparr>
      else st\<lparr>isDrawing := True, drawingStart := Some pointer\<rparr>)"

text \<open>
  \<^verbatim>\<open>handleMouseMove\<close> (lines 530-596): the live read-out and the preview shape, which
  replaces the previous preview on the canvas.
\<close>

definition liveMeasurement :: "Platform \<Rightarrow> EditorState \<Rightarrow> point \<Rightarrow> point \<Rightarrow> string" where
  "liveMeasurement pf st start pointer =
     (let distance = calculateDistance (currentScale st) (fst start) (snd start) (fst pointer) (snd pointer)
      in if activeTool st = ToolLine \<or> activeTool st = ToolMeasure then
           formatMeasurement (numberToString pf) distance
         else if activeTool st = ToolRectangle then
           (let width = pixelsToMeters (currentScale st) \<bar>fst pointer - fst start\<bar>;
                height = pixelsToMeters (currentScale st) \<bar>snd pointer - snd start\<bar>
            in formatMeasurement (numberToString pf) width @ '' '' @ timesSign @ '' ''
                 @ formatMeasurement (numberToString pf) height)
         else if activeTool st = ToolCircle then
           diameterSign @ '' '' @ formatMeasurement (numberToString pf) (distance * 2)
         else currentMeasurement st)"

definition previewShape :: "EditorState \<Rightarrow> point \<Rightarrow> point \<Rightarrow> FabricObject option" where
  "previewShape st start pointer =
     (if activeTool st = ToolLine \<or> activeTool st = ToolMeasure then
        Some (drawnObject (nextRef st) (Line (fst start) (snd start) (fst pointer) (snd pointer)) None
                (Some (if activeTool st = ToolMeasure then ''#22c55e'' else activeColor st)) None
                (if activeTool st = ToolMeasure then 2 else strokeWidth st) False)
      else if activeTool st = ToolRectangle then
        Some (drawnObject (nextRef st)
                (Rect (min (fst start) (fst pointer)) (min (snd start) (snd pointer))
                   \<bar>fst pointer - fst start\<bar> \<bar>snd pointer - snd start\<bar> 1 1)
                None (Some (activeColor st)) (Some ''transparent'') (strokeWidth st) False)
      else if activeTool st = ToolCircle then
        (let radiusPx = sqrt ((fst pointer - fst start)\<^sup>2 + (snd pointer - snd start)\<^sup>2)
         in Some (drawnObject (nextRef st)
                    (Circle (fst start - radiusPx) (snd start - radiusPx) radiusPx 1)
                    None (Some (activeColor st)) (Some ''transparent'') (strokeWidth st) False))
      else None)"

definition handleMouseMove :: "Platform \<Rightarrow> EditorState \<Rightarrow> point \<Rightarrow> EditorState" where
  "handleMouseMove pf st pointer =
     (case canvas st of
        None \<Rightarrow> st
      | Some objs \<Rightarrow>
          (let st1 = st\<lparr>mousePos := pointer\<rparr>
           in case drawingStart st of
                None \<Rightarrow> st1
              | Some start \<Rightarrow>
                  if \<not> isDrawing st then st1
                  else
                    (let st2 = st1\<lparr>currentMeasurement := liveMeasurement pf st start pointer\<rparr>;
                         objs1 = (case tempShape st of None \<Rightarrow> objs | Some t \<Rightarrow> canvasRemove t objs)
                     in case previewShape st start pointer of
                          None \<Rightarrow> st2\<lparr>canvas := Some objs1\<rparr>
                        | Some newTempShape \<Rightarrow>
                            st2\<lparr>canvas := Some (objs1 @ [newTempShape]), nextRef := nextRef st + 1,
                                tempShape := Some newTempShape\<rparr>)))"

text \<open>
  \<^verbatim>\<open>handleMouseUp\<close> (lines 613-685). \<open>now\<close> is \<^verbatim>\<open>Date.now()\<close>, from which the id of the new
  shape is made. The preview leaves the canvas; a line is always committed, a rectangle
  when both sides exceed 5 pixels, a circle when its radius does.
\<close>

definition handleMouseUp :: "Platform \<Rightarrow> EditorState \<Rightarrow> nat \<Rightarrow> point \<Rightarrow> EditorState" where
  "handleMouseUp pf st now pointer =
     (case canvas st of
        None \<Rightarrow> st
      | Some objs \<Rightarrow>
          (case drawingStart st of
             None \<Rightarrow> st
           | Some start \<Rightarrow>
               if \<not> isDrawing st then st
               else
                 (let st1 =
                        (case tempShape st of
                           None \<Rightarrow> st
                         | Some t \<Rightarrow> st\<lparr>canvas := Some (canvasRemove t objs), tempShape := None\<rparr>);
                      objs1 = (case tempShape st of None \<Rightarrow> objs | Some t \<Rightarrow> canvasRemove t objs);
                      shapeId = ''shape-'' @ digitsOf now;
                      r = nextRef st;
                      st2 =
                        (if activeTool st = ToolLine then
                           (let line =
                                  drawnObject r (Line (fst start) (snd start) (fst pointer) (snd pointer))
                                    (Some shapeId) (Some (activeColor st)) None (strokeWidth st) True
                            in addLineMeasurement pf (st1\<lparr>canvas := Some (objs1 @ [line]), nextRef := r + 1\<rparr>)
                                 line shapeId)
                         else if activeTool st = ToolMeasure then
                           (let line =
                                  drawnObject r (Line (fst start) (snd start) (fst pointer) (snd pointer))
                                    (Some shapeId) (Some ''#22c55e'') None 2 True
                            in addLineMeasurement pf (st1\<lparr>canvas := Some (objs1 @ [line]), nextRef := r + 1\<rparr>)
                                 line shapeId)
                         else if activeTool st = ToolRectangle then
                           (let left = min (fst start) (fst pointer);
                                top = min (snd start) (snd pointer);
                                width = \<bar>fst pointer - fst start\<bar>;
                                height = \<bar>snd pointer - snd start\<bar>
                            in if 5 < width \<and> 5 < height then
                                 (let rect =
                                        drawnObject r (Rect left top width height 1 1) (Some shapeId)
                                          (Some (activeColor st)) (Some ''transparent'') (strokeWidth st) True
                                  in addRectMeasurements pf
                                       (st1\<lparr>canvas := Some (objs1 @ [rect]), nextRef := r + 1\<rparr>) rect shapeId)
                               else st1)
                         else if activeTool st = ToolCircle then
                           (let radiusPx = sqrt ((fst pointer - fst start)\<^sup>2 + (snd pointer - snd start)\<^sup>2)
                            in if 5 < radiusPx then
                                 (let circle =
                                        drawnObject r
                                          (Circle (fst start - radiusPx) (snd start - radiusPx) radiusPx 1)
                                          (Some shapeId) (Some (activeColor st)) (Some ''transparent'')
                                          (strokeWidth st) True
                                  in addCircleMeasurements pf
                                       (st1\<lparr>canvas := Some (objs1 @ [circle]), nextRef := r + 1\<rparr>) circle shapeId)
                               else st1)
                         else st1)
                  in st2\<lparr>isDrawing := False, drawingStart := None, currentMeasurement := []\<rparr>)))"


subsection \<open>The other callbacks that change the canvas\<close>










subsection \<open>A drag, and the canvas without the preview\<close>

text \<open>
  A run of pointer-move events, handled one after the other; and the objects of the canvas
  once \<^verbatim>\<open>handleMouseUp\<close> has removed the preview shape, if there is one (lines 619-622).
\<close>

definition pointerMoves :: "Platform \<Rightarrow> EditorState \<Rightarrow> point list \<Rightarrow> EditorState" where
  "pointerMoves pf st moves = fold (\<lambda>pointer s. handleMouseMove pf s pointer) moves st"

definition withoutPreview :: "EditorState \<Rightarrow> FabricObject list \<Rightarrow> FabricObject list" where
  "withoutPreview st objs = (case tempShape st of None \<Rightarrow> objs | Some t \<Rightarrow> canvasRemove t objs)"

subsection \<open>The annotation sets in closed form\<close>

text \<open>
  What the four \<^verbatim>\<open>add...Measurements\<close> callbacks store for a shape, as functions of the
  platform, the scale, the number \<open>r\<close> of the first object created and the shape alone.
  The properties below show that the callbacks compute these lists.
\<close>

definition rectElements :: "Platform \<Rightarrow> Scale \<Rightarrow> nat \<Rightarrow> Geometry \<Rightarrow> string \<Rightarrow> FabricObject list" where
  "rectElements pf sc r g ident =
     (let left = js_or (g_left g) 0;
          top = js_or (g_top g) 0;
          width = js_or (g_width g) 0 * js_or (g_scaleX g) 1;
          height = js_or (g_height g) 0 * js_or (g_scaleY g) 1
      in dimensionElements pf sc r left (top + height) (left + width) (top + height) ident 25 ''#fbbf24'' @
         dimensionElements pf sc (r + 6) (left + width) top (left + width) (top + height) ident 25 ''#fbbf24'')"

definition edgeElements ::
  "Platform \<Rightarrow> Scale \<Rightarrow> nat \<Rightarrow> point list \<Rightarrow> matrix \<Rightarrow> string \<Rightarrow> nat \<Rightarrow> FabricObject list" where
  "edgeElements pf sc r pts mtx ident i =
     dimensionElements pf sc r
       (fst (transformPoint (pts ! i) mtx)) (snd (transformPoint (pts ! i) mtx))
       (fst (transformPoint (pts ! ((i + 1) mod length pts)) mtx))
       (snd (transformPoint (pts ! ((i + 1) mod length pts)) mtx)) ident 25 ''#22c55e''"

fun polygonElements ::
  "Platform \<Rightarrow> Scale \<Rightarrow> nat \<Rightarrow> point list \<Rightarrow> matrix \<Rightarrow> string \<Rightarrow> nat list \<Rightarrow> FabricObject list" where
  "polygonElements pf sc r pts mtx ident [] = []"
| "polygonElements pf sc r pts mtx ident (i # is) =
     edgeElements pf sc r pts mtx ident i @ polygonElements pf sc (r + 6) pts mtx ident is"

definition lineElements :: "Platform \<Rightarrow> Scale \<Rightarrow> nat \<Rightarrow> Geometry \<Rightarrow> string \<Rightarrow> FabricObject list" where
  "lineElements pf sc r g ident =
     dimensionElements pf sc r (js_or (g_x1 g) 0) (js_or (g_y1 g) 0) (js_or (g_x2 g) 0) (js_or (g_y2 g) 0)
       ident 20 ''#fbbf24''"

definition circleElements :: "Platform \<Rightarrow> Scale \<Rightarrow> nat \<Rightarrow> Geometry \<Rightarrow> string \<Rightarrow> FabricObject list" where
  "circleElements pf sc r g ident =
     (let centerX = js_or (g_left g) 0 + js_or (g_radius g) 0;
          centerY = js_or (g_top g) 0 + js_or (g_radius g) 0;
          radius = js_or (g_radius g) 0 * js_or (g_scaleX g) 1
      in [measurementObject r (Line (centerX - radius) centerY (centerX + radius) centerY) ident
            (Some ''#fbbf24'') None None (Some 1),
          measurementObject (r + 1)
            (Text (diameterSign @ '' '' @ formatMeasurement (numberToString pf) (pixelsToMeters sc (radius * 2)))
               centerX (centerY - radius - 20) 0)
            ident None (Some ''#0f172a'') (Some ''#fbbf24'') None])"

definition annotationsFor :: "Platform \<Rightarrow> Scale \<Rightarrow> nat \<Rightarrow> FabricObject \<Rightarrow> string \<Rightarrow> FabricObject list option" where
  "annotationsFor pf sc r obj ident =
     (if o_type obj = ''rect'' then Some (rectElements pf sc r (o_geometry obj) ident)
      else if o_type obj = ''polygon'' then
        (if length (g_points (o_geometry obj)) < 2 then None
         else Some (polygonElements pf sc r (g_points (o_geometry obj)) (calcTransformMatrix pf obj) ident
                      [0 ..< length (g_points (o_geometry obj))]))
      else if o_type obj = ''line'' then Some (lineElements pf sc r (o_geometry obj) ident)
      else if o_type obj = ''circle'' then Some (circleElements pf sc r (o_geometry obj) ident)
      else None)"



subsection \<open>A platform and an initial state\<close>

text \<open>
  A platform whose \<^verbatim>\<open>Number::toString\<close> prints nothing and whose polygons are untransformed,
  and the page's state right after the canvas has been created: the initial values
  of the React state, an empty canvas and no stored annotations.
\<close>

definition plainPlatform :: Platform where
  "plainPlatform = \<lparr>numberToString = (\<lambda>x. []), calcTransformMatrix = (\<lambda>obj. (1, 0, 0, 1, 0, 0))\<rparr>"

definition initialEditor :: EditorState where
  "initialEditor =
     \<lparr>canvas = Some [], measurementLabels = (\<lambda>k. None), nextRef = 0,
      currentScale = \<lparr>label = ''1:100'', scaleValue = 1, pixelsPerMeter = 10\<rparr>,
      activeTool = ToolSelect, activeColor = ''#3b82f6'', strokeWidth = 2, isDrawing = False,
      drawingStart = None, tempShape = None, currentMeasurement = [], mousePos = (0, 0),
      polygonPoints = []\<rparr>"

text \<open>
  \<^verbatim>\<open>Number::toString\<close> at \<open>10\<^sup>2\<^sup>1\<close>: ECMAScript prints the fewest digits that identify the
  double, here the digit 1, and, the decimal exponent being above 21, the exponent after
  \<^verbatim>\<open>e+\<close>. Other values are not needed and print nothing here.
\<close>

definition numberToString_1e21 :: "real \<Rightarrow> string" where
  "numberToString_1e21 x = (if x = 10 ^ 21 then ''1e+21'' else [])"

text \<open>An object without its identity: what it looks like.\<close>

definition unref :: "FabricObject \<Rightarrow> FabricObject" where
  "unref obj = obj\<lparr>o_ref := 0\<rparr>"

text \<open>Shapes and states for the examples: a line, a circle, both annotated, and the line
  turned.\<close>

definition exampleLine :: FabricObject where
  "exampleLine = drawnObject 0 (Line 0 0 10 0) (Some ''a'') (Some ''#3b82f6'') None 2 True"

definition exampleCircle :: FabricObject where
  "exampleCircle = drawnObject 1 (Circle 30 30 10 1) (Some ''b'') (Some ''#3b82f6'') (Some ''transparent'') 2 True"

definition annotatedEditor :: EditorState where
  "annotatedEditor =
     addCircleMeasurements plainPlatform
       (addLineMeasurement plainPlatform
          (initialEditor\<lparr>canvas := Some [exampleLine, exampleCircle], nextRef := 2\<rparr>) exampleLine ''a'')
       exampleCircle ''b''"

definition turnedLine :: FabricObject where
  "turnedLine = exampleLine\<lparr>o_geometry := Line 0 0 0 10\<rparr>"

subsection \<open>Runs of the page\<close>






text \<open>Every polygon on the canvas has at least three points.\<close>

definition threeVertices :: "FabricObject \<Rightarrow> bool" where
  "threeVertices x = (if o_type x = ''polygon'' then 3 \<le> length (g_points (o_geometry x)) else True)"

definition polygonsComplete :: "EditorState \<Rightarrow> bool" where
  "polygonsComplete st = (case canvas st of None \<Rightarrow> True | Some objs \<Rightarrow> list_all threeVertices objs)"

section \<open>Properties of the canvas component\<close>

lemma rect_type_neq [simp]: "''rect'' \<noteq> ''polygon''"
  by simp

lemma updateMeasurements_rect:
  assumes "c_type obj = ''rect''"
  shows "updateMeasurements cpa cdist scale obj =
     \<lparr>area = (js_or (c_width obj) 0 * js_or (c_scaleX obj) 1) * (js_or (c_height obj) 0 * js_or (c_scaleY obj) 1)
               / (scale * scale * 10000),
      perimeter = 2 * (js_or (c_width obj) 0 * js_or (c_scaleX obj) 1 + js_or (c_height obj) 0 * js_or (c_scaleY obj) 1)
               / (scale * 100)\<rparr>"
  using assms by (simp add: updateMeasurements_def Let_def)

lemma updateMeasurements_rect_scaled:
  assumes "c_type obj = ''rect''" and "scale \<noteq> 0"
  shows "area (updateMeasurements cpa cdist scale obj) * 100 =
           (js_or (c_width obj) 0 * js_or (c_scaleX obj) 1) * (js_or (c_height obj) 0 * js_or (c_scaleY obj) 1)
             / (canvasPixelsPerMeter scale)\<^sup>2"
    and "perimeter (updateMeasurements cpa cdist scale obj) * 10 =
           2 * (js_or (c_width obj) 0 * js_or (c_scaleX obj) 1 + js_or (c_height obj) 0 * js_or (c_scaleY obj) 1)
             / canvasPixelsPerMeter scale"
  using assms
  by (simp_all add: updateMeasurements_rect canvasPixelsPerMeter_def BASE_PIXELS_PER_METER_def
      power2_eq_square field_simps)

text \<open>
  C1. The spec's scenario: a rectangle of 200 by 150 pixels at \<open>pixelsPerMeter = 10\<close>, which
  is store scale \<open>1\<close> times \<open>BASE_PIXELS_PER_METER\<close>. The claim says area \<open>300\<close> and perimeter
  \<open>70\<close>. \<^verbatim>\<open>updateMeasurements\<close> divides by \<open>scale * scale * 10000\<close> and by \<open>scale * 100\<close>, that is
  by a hundred pixels per meter, and reports area \<open>3\<close> and perimeter \<open>7\<close>: a hundredth and
  a tenth of what the conversion factor of the same file gives.
\<close>

theorem updateMeasurements_rect_200_150:
  "canvasPixelsPerMeter 1 = 10 \<and>
   updateMeasurements cpa cdist 1 rect_200_150 = \<lparr>area = 3, perimeter = 7\<rparr> \<and>
   area (updateMeasurements cpa cdist 1 rect_200_150) \<noteq> (200 * 150) / (canvasPixelsPerMeter 1)\<^sup>2 \<and>
   perimeter (updateMeasurements cpa cdist 1 rect_200_150) \<noteq> 2 * (200 + 150) / canvasPixelsPerMeter 1"
  by (simp add: updateMeasurements_def rect_200_150_def js_or_def canvasPixelsPerMeter_def
      BASE_PIXELS_PER_METER_def Let_def)

section \<open>Properties of the unit converter\<close>

declare digitsOf.simps [simp del]

lemma digitChar_digit: "digitChar d \<in> set ''0123456789''"
  by (simp add: digitChar_def)

lemma digitsOf_nonempty: "digitsOf n \<noteq> []"
  by (subst digitsOf.simps) simp

lemma digitsOf_digits: "set (digitsOf n) \<subseteq> set ''0123456789''"
proof (induction n rule: digitsOf.induct)
  case (1 n)
  show ?case
  proof (cases "n < 10")
    case True
    then show ?thesis using digitChar_digit [of n] by (subst digitsOf.simps) simp
  next
    case False
    then show ?thesis using 1 digitChar_digit [of "n mod 10"] by (subst digitsOf.simps) simp
  qed
qed

lemma digitsOf_two_last:
  assumes "100 \<le> n"
  shows "digitsOf n = digitsOf (n div 100) @ [digitChar (n div 10 mod 10), digitChar (n mod 10)]"
proof -
  have a: "digitsOf n = digitsOf (n div 10) @ [digitChar (n mod 10)]"
    using assms by (subst digitsOf.simps) simp
  have "\<not> n div 10 < 10" using assms by simp
  then have b: "digitsOf (n div 10) = digitsOf (n div 10 div 10) @ [digitChar (n div 10 mod 10)]"
    by (subst digitsOf.simps) simp
  have c: "n div 10 div 10 = n div 100" by (simp add: div_mult2_eq)
  show ?thesis using a b c by simp
qed

subsection \<open>Rounding to a double\<close>

declare exponentOf.simps [simp del]

lemma exponentOf_log: "0 < a \<Longrightarrow> exponentOf a = \<lfloor>log 2 a\<rfloor>"
proof (induction a rule: exponentOf.induct)
  case (1 a)
  show ?case
  proof (cases "2 \<le> a")
    case True
    then have "exponentOf a = exponentOf (a / 2) + 1" by (subst exponentOf.simps) simp
    also have "exponentOf (a / 2) = \<lfloor>log 2 (a / 2)\<rfloor>" using 1(1) [OF True] True by simp
    also have "log 2 (a / 2) = log 2 a - 1" using True by (simp add: log_divide)
    finally show ?thesis by simp
  next
    case False
    show ?thesis
    proof (cases "a < 1")
      case True
      then have t: "0 < a \<and> a < 1" using 1(3) by simp
      then have "exponentOf a = exponentOf (a * 2) - 1" using False by (subst exponentOf.simps) simp
      also have "exponentOf (a * 2) = \<lfloor>log 2 (a * 2)\<rfloor>" using 1(2) [OF False t] t by simp
      also have "log 2 (a * 2) = log 2 a + 1" using t by (simp add: log_mult)
      finally show ?thesis by simp
    next
      case ge: False
      then have "exponentOf a = 0" using False by (subst exponentOf.simps) simp
      moreover have "\<lfloor>log 2 a\<rfloor> = 0"
        using False ge 1(3) by (simp add: floor_log_eq_powr_iff)
      ultimately show ?thesis by simp
    qed
  qed
qed

lemma pow2_powr: "pow2 e = 2 powr (of_int e)"
  by (simp add: pow2_def powr_int)

lemma pow2_pos [simp]: "0 < pow2 e"
  by (simp add: pow2_powr)

lemma pow2_nonneg [simp]: "0 \<le> pow2 e"
  using pow2_pos [of e] by linarith

lemma pow2_diff: "pow2 (e - d) = pow2 e / pow2 d"
  by (simp add: pow2_powr powr_diff)

lemma roundTiesToEven_error: "\<bar>of_int (roundTiesToEven q) - q\<bar> \<le> 1 / 2"
  unfolding roundTiesToEven_def Let_def by (auto; linarith)

lemma roundTiesToEven_nonneg: "0 \<le> q \<Longrightarrow> 0 \<le> roundTiesToEven q"
  unfolding roundTiesToEven_def Let_def by auto

lemma floor_log2:
  assumes "pow2 e \<le> x" "x < pow2 (e + 1)"
  shows "\<lfloor>log 2 x\<rfloor> = e"
proof -
  have "0 < x" using assms(1) pow2_pos [of e] by linarith
  then show ?thesis using assms by (simp add: floor_log_eq_powr_iff pow2_powr)
qed

text \<open>The double nearest to a value whose binade \<open>2\<^sup>e \<le> \<bar>x\<bar> < 2\<^sup>e\<^sup>+\<^sup>1\<close> is known.\<close>

lemma roundToDouble_at:
  assumes "pow2 e \<le> \<bar>x\<bar>" "\<bar>x\<bar> < pow2 (e + 1)" "- 1022 \<le> e"
  shows "roundToDouble x = pow2 (e - 52) * of_int (roundTiesToEven (x / pow2 (e - 52)))"
proof -
  have "x \<noteq> 0"
  proof
    assume "x = 0"
    then have "pow2 e \<le> 0" using assms(1) by simp
    then show False using pow2_pos [of e] by linarith
  qed
  then have "exponentOf \<bar>x\<bar> = e"
    using floor_log2 [OF assms(1, 2)] by (simp add: exponentOf_log)
  then show ?thesis
    using \<open>x \<noteq> 0\<close> assms(3) by (simp add: roundToDouble_def Let_def max_def)
qed

lemma roundToDouble_0 [simp]: "roundToDouble 0 = 0"
  by (simp add: roundToDouble_def)

lemma pow2_floor_log_le:
  assumes "x \<noteq> 0"
  shows "pow2 \<lfloor>log 2 \<bar>x\<bar>\<rfloor> \<le> \<bar>x\<bar>"
proof -
  have "2 powr (of_int \<lfloor>log 2 \<bar>x\<bar>\<rfloor>) \<le> 2 powr (log 2 \<bar>x\<bar>)"
    by (rule powr_mono) simp_all
  also have "\<dots> = \<bar>x\<bar>" using assms by simp
  finally show ?thesis by (simp add: pow2_powr)
qed

text \<open>
  The rounding error is at most half a unit in the last place: a relative error of
  \<open>2\<^sup>-\<^sup>5\<^sup>3\<close>, or \<open>2\<^sup>-\<^sup>1\<^sup>0\<^sup>7\<^sup>5\<close> among the subnormal numbers.
\<close>

lemma roundToDouble_error: "\<bar>roundToDouble x - x\<bar> \<le> \<bar>x\<bar> / 2 ^ 53 + 1 / 2 ^ 1075"
proof (cases "x = 0")
  case True
  then show ?thesis by simp
next
  case False
  define e0 where "e0 = \<lfloor>log 2 \<bar>x\<bar>\<rfloor>"
  define e where "e = max e0 (- 1022)"
  define u where "u = pow2 (e - 52)"
  have u0: "0 < u" by (simp add: u_def)
  have f: "roundToDouble x = u * of_int (roundTiesToEven (x / u))"
    using False by (simp add: roundToDouble_def Let_def e0_def e_def u_def exponentOf_log)
  have "roundToDouble x - x = u * (of_int (roundTiesToEven (x / u)) - x / u)"
    using u0 by (simp add: f right_diff_distrib)
  then have "\<bar>roundToDouble x - x\<bar> = u * \<bar>of_int (roundTiesToEven (x / u)) - x / u\<bar>"
    using u0 by (simp add: abs_mult)
  also have "\<dots> \<le> u * (1 / 2)"
    using u0 roundTiesToEven_error [of "x / u"] by (intro mult_left_mono) simp_all
  finally have err: "\<bar>roundToDouble x - x\<bar> \<le> u / 2" by simp
  have "u / 2 \<le> \<bar>x\<bar> / 2 ^ 53 + 1 / 2 ^ 1075"
  proof (cases "- 1022 \<le> e0")
    case True
    then have "u = pow2 e0 / pow2 52" by (simp add: u_def e_def pow2_diff)
    also have "\<dots> \<le> \<bar>x\<bar> / pow2 52"
      using pow2_floor_log_le [OF False] by (intro divide_right_mono) (simp_all add: e0_def)
    finally have "u / 2 \<le> \<bar>x\<bar> / pow2 52 / 2" by simp
    also have "\<dots> = \<bar>x\<bar> / 2 ^ 53" by (simp add: pow2_def)
    finally show ?thesis by simp
  next
    case False
    then have "u = pow2 (- 1074)" by (simp add: u_def e_def max_def)
    then have "u / 2 = 1 / 2 ^ 1075" by (simp add: pow2_def)
    then show ?thesis by simp
  qed
  then show ?thesis using err by linarith
qed

lemma roundToDouble_nonneg: "0 \<le> x \<Longrightarrow> 0 \<le> roundToDouble x"
  by (simp add: roundToDouble_def Let_def roundTiesToEven_nonneg)

text \<open>The doubles that the literals \<^verbatim>\<open>0.99\<close> and \<^verbatim>\<open>0.995\<close> denote.\<close>

lemma roundToDouble_099: "roundToDouble (99 / 100) = 4458563631096791 / 2 ^ 52"
proof -
  have "roundToDouble (99 / 100) =
      pow2 (- 1 - 52) * of_int (roundTiesToEven ((99 / 100) / pow2 (- 1 - 52)))"
    by (rule roundToDouble_at) (simp_all add: pow2_def)
  then show ?thesis by (simp add: pow2_def roundTiesToEven_def Let_def)
qed

lemma roundToDouble_0995: "roundToDouble (995 / 1000) = 8962163258467287 / 2 ^ 53"
proof -
  have "roundToDouble (995 / 1000) =
      pow2 (- 1 - 52) * of_int (roundTiesToEven ((995 / 1000) / pow2 (- 1 - 52)))"
    by (rule roundToDouble_at) (simp_all add: pow2_def)
  then show ?thesis by (simp add: pow2_def roundTiesToEven_def Let_def)
qed

subsection \<open>The round trip of the unit converter\<close>

lemma round_trip_error:
  assumes p: "0 \<le> p" and s: "0 < s"
  shows "\<bar>roundToDouble (roundToDouble (p / s) * s) - p\<bar> \<le>
    (p + p / 2 ^ 53 + s / 2 ^ 1075) / 2 ^ 53 + 1 / 2 ^ 1075 + (p / 2 ^ 53 + s / 2 ^ 1075)"
proof -
  define q where "q = roundToDouble (p / s)"
  define r where "r = roundToDouble (q * s)"
  have "\<bar>q - p / s\<bar> \<le> \<bar>p / s\<bar> / 2 ^ 53 + 1 / 2 ^ 1075"
    unfolding q_def by (rule roundToDouble_error)
  then have e1: "\<bar>q - p / s\<bar> \<le> p / s / 2 ^ 53 + 1 / 2 ^ 1075"
    using p s by simp
  have "q * s - p = (q - p / s) * s" using s by (simp add: left_diff_distrib)
  then have "\<bar>q * s - p\<bar> = \<bar>q - p / s\<bar> * s" using s by (simp add: abs_mult)
  also have "\<dots> \<le> (p / s / 2 ^ 53 + 1 / 2 ^ 1075) * s"
    using e1 s by (intro mult_right_mono) simp_all
  also have "\<dots> = p / 2 ^ 53 + s / 2 ^ 1075" using s by (simp add: distrib_right)
  finally have d1: "\<bar>q * s - p\<bar> \<le> p / 2 ^ 53 + s / 2 ^ 1075" .
  then have qs: "\<bar>q * s\<bar> \<le> p + p / 2 ^ 53 + s / 2 ^ 1075" using p by linarith
  have "\<bar>r - q * s\<bar> \<le> \<bar>q * s\<bar> / 2 ^ 53 + 1 / 2 ^ 1075"
    unfolding r_def by (rule roundToDouble_error)
  also have "\<dots> \<le> (p + p / 2 ^ 53 + s / 2 ^ 1075) / 2 ^ 53 + 1 / 2 ^ 1075"
    using qs by (simp add: divide_right_mono)
  finally have d2: "\<bar>r - q * s\<bar> \<le> (p + p / 2 ^ 53 + s / 2 ^ 1075) / 2 ^ 53 + 1 / 2 ^ 1075" .
  have "\<bar>r - p\<bar> \<le> \<bar>r - q * s\<bar> + \<bar>q * s - p\<bar>" by linarith
  then show ?thesis using d1 d2 unfolding r_def q_def by linarith
qed

lemma round_trip_small_terms:
  assumes "0 < s" "s \<le> 2 ^ 500"
  shows "s / 2 ^ 1075 / 2 ^ 53 + 1 / 2 ^ 1075 + s / 2 ^ 1075 \<le> (1 :: real) / 2 ^ 500"
proof -
  have a: "s / 2 ^ 1075 \<le> 2 ^ 500 / 2 ^ 1075" using assms by (simp add: divide_right_mono)
  have b: "(2 :: real) ^ 500 / 2 ^ 1075 = 1 / 2 ^ 575"
    by (simp add: power_diff [symmetric] field_simps power_add [symmetric])
  have c: "s / 2 ^ 1075 / 2 ^ 53 \<le> s / 2 ^ 1075" using assms by (simp add: field_simps)
  have d: "(1 :: real) / 2 ^ 1075 \<le> 1 / 2 ^ 575" by (simp add: field_simps power_increasing)
  have e: "(3 :: real) / 2 ^ 575 \<le> 1 / 2 ^ 500"
  proof -
    have "(3 :: real) * 2 ^ 500 \<le> 2 ^ 2 * 2 ^ 500" by simp
    also have "\<dots> = 2 ^ 502" by (simp only: power_add [symmetric]) simp
    also have "\<dots> \<le> 2 ^ 575" by (rule power_increasing) simp_all
    finally show ?thesis by (simp add: field_simps)
  qed
  show ?thesis using a b c d e by linarith
qed

text \<open>The two steps of the round trip at \<open>8446139584812063 / 2\<^sup>2\<^sup>9\<close> pixels, ten pixels to the meter.\<close>

lemma pixelsToMeters_example:
  "pixelsToMeters (currentScale initialEditor) (8446139584812063 / 2 ^ 29) = 6756911667849650 / 2 ^ 32"
proof -
  have "roundToDouble (8446139584812063 / 2 ^ 29 / 10) =
      pow2 (20 - 52) * of_int (roundTiesToEven (8446139584812063 / 2 ^ 29 / 10 / pow2 (20 - 52)))"
    by (rule roundToDouble_at) (simp_all add: pow2_def)
  then show ?thesis
    by (simp add: pixelsToMeters_def initialEditor_def pow2_def roundTiesToEven_def Let_def)
qed

lemma metersToPixels_example:
  "metersToPixels (currentScale initialEditor) (6756911667849650 / 2 ^ 32) = 8446139584812062 / 2 ^ 29"
proof -
  have "roundToDouble (6756911667849650 / 2 ^ 32 * 10) =
      pow2 (23 - 52) * of_int (roundTiesToEven (6756911667849650 / 2 ^ 32 * 10 / pow2 (23 - 52)))"
    by (rule roundToDouble_at) (simp_all add: pow2_def)
  then show ?thesis
    by (simp add: metersToPixels_def initialEditor_def pow2_def roundTiesToEven_def Let_def)
qed

text \<open>
  C2, as amended. The round trip \<^verbatim>\<open>metersToPixels(pixelsToMeters(p))\<close> is a division and a
  multiplication of doubles, each rounded. For a pixel value \<open>0 < p \<le> 2\<^sup>5\<^sup>0\<^sup>0\<close> and a scale
  with \<open>2\<^sup>-\<^sup>5\<^sup>0\<^sup>0 \<le> pixelsPerMeter \<le> 2\<^sup>5\<^sup>0\<^sup>0\<close> (so that nothing overflows) it returns \<open>p\<close> within
  \<open>p (2\<^sup>-\<^sup>5\<^sup>2 + 2\<^sup>-\<^sup>1\<^sup>0\<^sup>6) + 2\<^sup>-\<^sup>5\<^sup>0\<^sup>0\<close>, and therefore within \<open>10\<^sup>-\<^sup>9\<close> for every \<open>p \<le> 2\<^sup>2\<^sup>2 = 4194304\<close>.
\<close>

theorem unit_round_trip:
  assumes "0 < p" and "p \<le> 2 ^ 500"
    and "1 / 2 ^ 500 \<le> pixelsPerMeter sc" and "pixelsPerMeter sc \<le> 2 ^ 500"
  shows "\<bar>metersToPixels sc (pixelsToMeters sc p) - p\<bar> \<le> p / 2 ^ 52 + p / 2 ^ 106 + 1 / 2 ^ 500 \<and>
    (p \<le> 2 ^ 22 \<longrightarrow> \<bar>metersToPixels sc (pixelsToMeters sc p) - p\<bar> \<le> 1 / 10 ^ 9)"
proof -
  define s where "s = pixelsPerMeter sc"
  define d where "d = \<bar>metersToPixels sc (pixelsToMeters sc p) - p\<bar>"
  have s0: "0 < s"
  proof -
    have "(0 :: real) < 1 / 2 ^ 500" by simp
    then show ?thesis using assms(3) unfolding s_def by linarith
  qed
  have "d \<le> (p + p / 2 ^ 53 + s / 2 ^ 1075) / 2 ^ 53 + 1 / 2 ^ 1075 + (p / 2 ^ 53 + s / 2 ^ 1075)"
    unfolding d_def metersToPixels_def pixelsToMeters_def s_def [symmetric]
    using assms(1) s0 by (intro round_trip_error) simp_all
  also have "\<dots> = p / 2 ^ 52 + p / 2 ^ 106 + (s / 2 ^ 1075 / 2 ^ 53 + 1 / 2 ^ 1075 + s / 2 ^ 1075)"
    by (simp add: add_divide_distrib)
  also have "\<dots> \<le> p / 2 ^ 52 + p / 2 ^ 106 + 1 / 2 ^ 500"
    using round_trip_small_terms [OF s0] assms(4) unfolding s_def by simp
  finally have g: "d \<le> p / 2 ^ 52 + p / 2 ^ 106 + 1 / 2 ^ 500" .
  have "p \<le> 2 ^ 22 \<longrightarrow> d \<le> 1 / 10 ^ 9"
  proof
    assume a: "p \<le> 2 ^ 22"
    have x: "p / 2 ^ 52 \<le> 2 ^ 22 / 2 ^ 52" using a by (simp add: divide_right_mono)
    have y: "p / 2 ^ 106 \<le> 2 ^ 22 / 2 ^ 106" using a by (simp add: divide_right_mono)
    have z: "(1 :: real) / 2 ^ 500 \<le> 1 / 2 ^ 84" by (simp add: field_simps power_increasing)
    have "(2 :: real) ^ 22 / 2 ^ 52 + 2 ^ 22 / 2 ^ 106 + 1 / 2 ^ 84 \<le> 1 / 10 ^ 9" by simp
    then show "d \<le> 1 / 10 ^ 9" using g x y z by linarith
  qed
  then show ?thesis using g unfolding d_def by simp
qed

theorem unit_round_trip_witness:
  "\<bar>metersToPixels (currentScale initialEditor) (pixelsToMeters (currentScale initialEditor) (1234567 / 2 ^ 10))
      - 1234567 / 2 ^ 10\<bar> \<le> 1 / 10 ^ 9"
proof -
  have a: "(0 :: real) < 1234567 / 2 ^ 10" by simp
  have b: "(1234567 :: real) / 2 ^ 10 \<le> 2 ^ 22" by simp
  have "(1234567 :: real) / 2 ^ 10 \<le> 2 ^ 11" by simp
  also have "(2 :: real) ^ 11 \<le> 2 ^ 500" by (rule power_increasing) simp_all
  finally have c: "(1234567 :: real) / 2 ^ 10 \<le> 2 ^ 500" .
  have "(1 :: real) / 2 ^ 500 \<le> 1" by (simp add: field_simps)
  then have d: "1 / 2 ^ 500 \<le> pixelsPerMeter (currentScale initialEditor)"
    by (simp add: initialEditor_def)
  have "(10 :: real) \<le> 2 ^ 4" by simp
  also have "(2 :: real) ^ 4 \<le> 2 ^ 500" by (rule power_increasing) simp_all
  finally have e: "pixelsPerMeter (currentScale initialEditor) \<le> 2 ^ 500"
    by (simp add: initialEditor_def)
  show ?thesis using unit_round_trip [OF a c d e] b by blast
qed

text \<open>
  C2, as stated, fails in double arithmetic: at \<open>p = 8446139584812063 / 2\<^sup>2\<^sup>9\<close>, about
  \<open>15732160.93\<close> pixels, and ten pixels to the meter the round trip returns the double
  below \<open>p\<close>, which is \<open>2\<^sup>-\<^sup>2\<^sup>9\<close>, more than \<open>10\<^sup>-\<^sup>9\<close>, away.
\<close>

theorem unit_round_trip_counterexample:
  "metersToPixels (currentScale initialEditor)
     (pixelsToMeters (currentScale initialEditor) (8446139584812063 / 2 ^ 29)) = 8446139584812062 / 2 ^ 29 \<and>
   1 / 10 ^ 9 <
     \<bar>metersToPixels (currentScale initialEditor)
        (pixelsToMeters (currentScale initialEditor) (8446139584812063 / 2 ^ 29)) - 8446139584812063 / 2 ^ 29\<bar>"
  unfolding pixelsToMeters_example metersToPixels_example by simp

subsection \<open>The formatter\<close>

lemma toFixed_0_nonneg:
  assumes "0 \<le> x" "x < 10 ^ 21"
  shows "toFixed nts x 0 = digitsOf (nat \<lfloor>x + 1 / 2\<rfloor>)"
  using assms by (simp add: toFixed_def Let_def)

lemma toFixed_0_neg:
  assumes "x < 0" "- (10 ^ 21) < x"
  shows "toFixed nts x 0 = ''-'' @ digitsOf (nat \<lfloor>- x + 1 / 2\<rfloor>)"
  using assms by (simp add: toFixed_def Let_def)

lemma toFixed_2_ge_1:
  assumes "1 \<le> x" "x < 10 ^ 21"
  shows "toFixed nts x 2 =
    digitsOf (nat \<lfloor>x * 100 + 1 / 2\<rfloor> div 100) @ ''.'' @
      [digitChar (nat \<lfloor>x * 100 + 1 / 2\<rfloor> div 10 mod 10), digitChar (nat \<lfloor>x * 100 + 1 / 2\<rfloor> mod 10)]"
proof -
  define n where "n = nat \<lfloor>x * 100 + 1 / 2\<rfloor>"
  have "real 100 \<le> x * 100 + 1 / 2" using assms by simp
  then have n100: "100 \<le> n" unfolding n_def by (rule le_nat_floor)
  let ?w = "digitsOf (n div 100)"
  have d: "digitsOf n = ?w @ [digitChar (n div 10 mod 10), digitChar (n mod 10)]"
    using digitsOf_two_last [OF n100] .
  have len: "length (digitsOf n) = length ?w + 2" by (subst d) simp
  have "toFixed nts x 2 =
      take (length (digitsOf n) - 2) (digitsOf n) @ ''.'' @ drop (length (digitsOf n) - 2) (digitsOf n)"
    using assms len digitsOf_nonempty [of "n div 100"]
    by (simp add: toFixed_def Let_def n_def [symmetric])
  also have "\<dots> = ?w @ ''.'' @ [digitChar (n div 10 mod 10), digitChar (n mod 10)]"
    unfolding len by (subst d, subst d) simp
  finally show ?thesis by (simp add: n_def)
qed

lemma formatMeasurement_1m: "formatMeasurement nts 1 = ''1.00 m''"
  by (simp add: formatMeasurement_def toFixed_def Let_def digitsOf.simps digitChar_def)

lemma formatMeasurement_0: "formatMeasurement nts 0 = ''0 cm''"
  by (simp add: formatMeasurement_def toFixed_def Let_def digitsOf.simps digitChar_def)

lemma roundToDouble_099_100: "roundToDouble (4458563631096791 / 2 ^ 52 * 100) = 99"
proof -
  have "roundToDouble (4458563631096791 / 2 ^ 52 * 100) =
      pow2 (6 - 52) * of_int (roundTiesToEven ((4458563631096791 / 2 ^ 52 * 100) / pow2 (6 - 52)))"
    by (rule roundToDouble_at) (simp_all add: pow2_def)
  then show ?thesis by (simp add: pow2_def roundTiesToEven_def Let_def)
qed

lemma roundToDouble_0995_100: "roundToDouble (8962163258467287 / 2 ^ 53 * 100) = 199 / 2"
proof -
  have "roundToDouble (8962163258467287 / 2 ^ 53 * 100) =
      pow2 (6 - 52) * of_int (roundTiesToEven ((8962163258467287 / 2 ^ 53 * 100) / pow2 (6 - 52)))"
    by (rule roundToDouble_at) (simp_all add: pow2_def)
  then show ?thesis by (simp add: pow2_def roundTiesToEven_def Let_def)
qed

lemma formatMeasurement_cm:
  assumes "m < 1"
  shows "formatMeasurement nts m = toFixed nts (roundToDouble (m * 100)) 0 @ '' cm''"
  using assms by (simp add: formatMeasurement_def)

lemma formatMeasurement_099: "formatMeasurement nts (roundToDouble (99 / 100)) = ''99 cm''"
proof -
  have "(4458563631096791 :: real) / 2 ^ 52 < 1" by simp
  then have "formatMeasurement nts (4458563631096791 / 2 ^ 52) =
      toFixed nts (roundToDouble (4458563631096791 / 2 ^ 52 * 100)) 0 @ '' cm''"
    by (rule formatMeasurement_cm)
  also have "\<dots> = ''99 cm''"
    unfolding roundToDouble_099_100 by (simp add: toFixed_def Let_def digitsOf.simps digitChar_def)
  finally show ?thesis unfolding roundToDouble_099 .
qed

text \<open>
  The double \<^verbatim>\<open>0.995\<close> lies below \<open>199 / 200\<close>, but its product with 100 rounds to the
  double \<open>99.5\<close>, which \<^verbatim>\<open>toFixed(0)\<close> prints as 100.
\<close>

lemma formatMeasurement_0995: "formatMeasurement nts (roundToDouble (995 / 1000)) = ''100 cm''"
proof -
  have "(8962163258467287 :: real) / 2 ^ 53 < 1" by simp
  then have "formatMeasurement nts (8962163258467287 / 2 ^ 53) =
      toFixed nts (roundToDouble (8962163258467287 / 2 ^ 53 * 100)) 0 @ '' cm''"
    by (rule formatMeasurement_cm)
  also have "\<dots> = ''100 cm''"
    unfolding roundToDouble_0995_100 by (simp add: toFixed_def Let_def digitsOf.simps digitChar_def)
  finally show ?thesis unfolding roundToDouble_0995 .
qed

text \<open>The centimeter value of a length below one meter stays far below \<open>10\<^sup>2\<^sup>1\<close>.\<close>

lemma roundToDouble_cm_bound:
  assumes "m < 1"
  shows "roundToDouble (m * 100) < 10 ^ 21"
proof -
  define x where "x = m * 100"
  have e: "\<bar>roundToDouble x - x\<bar> \<le> \<bar>x\<bar> / 2 ^ 53 + 1 / 2 ^ 1075" by (rule roundToDouble_error)
  have t: "(1 :: real) / 2 ^ 1075 \<le> 1" by (simp add: field_simps)
  have a: "\<bar>x\<bar> / 2 ^ 53 \<le> \<bar>x\<bar>" by (simp add: field_simps)
  have x100: "x < 100" using assms by (simp add: x_def)
  have "roundToDouble x \<le> 201"
  proof (cases "0 \<le> x")
    case True
    then show ?thesis using e t a x100 by linarith
  next
    case False
    then show ?thesis using e t a by linarith
  qed
  moreover have "(201 :: real) < 10 ^ 21" by simp
  ultimately show ?thesis unfolding x_def by linarith
qed

text \<open>
  C3, as amended. Below one meter \<^verbatim>\<open>formatMeasurement\<close> prints the centimeter value, the
  double product \<^verbatim>\<open>meters * 100\<close>: its digits after rounding to the nearest integer (the
  larger of two), with no decimal point, after a minus sign when the product is negative
  and above \<open>-10\<^sup>2\<^sup>1\<close>, and then \<^verbatim>\<open>" cm"\<close>. From one meter and below \<open>10\<^sup>2\<^sup>1\<close> it prints the
  value rounded to the nearest hundredth: the digits of the whole part, a point, exactly
  two digits, and then \<^verbatim>\<open>" m"\<close>. The product of a value that is not negative is not
  negative. At the boundary the double \<^verbatim>\<open>0.99\<close> gives \<^verbatim>\<open>"99 cm"\<close> and \<open>1\<close> gives \<^verbatim>\<open>"1.00 m"\<close>.
\<close>

theorem formatMeasurement_units:
  "(m < 1 \<and> 0 \<le> roundToDouble (m * 100) \<longrightarrow>
      formatMeasurement nts m = digitsOf (nat \<lfloor>roundToDouble (m * 100) + 1 / 2\<rfloor>) @ '' cm'') \<and>
   (0 \<le> m \<longrightarrow> 0 \<le> roundToDouble (m * 100)) \<and>
   (m < 1 \<and> roundToDouble (m * 100) < 0 \<and> - (10 ^ 21) < roundToDouble (m * 100) \<longrightarrow>
      formatMeasurement nts m =
        ''-'' @ digitsOf (nat \<lfloor>- roundToDouble (m * 100) + 1 / 2\<rfloor>) @ '' cm'') \<and>
   (1 \<le> m \<and> m < 10 ^ 21 \<longrightarrow>
      formatMeasurement nts m =
        digitsOf (nat \<lfloor>m * 100 + 1 / 2\<rfloor> div 100) @ ''.'' @
        [digitChar (nat \<lfloor>m * 100 + 1 / 2\<rfloor> div 10 mod 10), digitChar (nat \<lfloor>m * 100 + 1 / 2\<rfloor> mod 10)] @
        '' m'') \<and>
   set (digitsOf k) \<subseteq> set ''0123456789'' \<and>
   formatMeasurement nts (roundToDouble (99 / 100)) = ''99 cm'' \<and>
   formatMeasurement nts 1 = ''1.00 m''"
proof -
  have cm_pos: "m < 1 \<and> 0 \<le> roundToDouble (m * 100) \<longrightarrow>
      formatMeasurement nts m = digitsOf (nat \<lfloor>roundToDouble (m * 100) + 1 / 2\<rfloor>) @ '' cm''"
  proof
    assume a: "m < 1 \<and> 0 \<le> roundToDouble (m * 100)"
    then have "m < 1" by simp
    then have "roundToDouble (m * 100) < 10 ^ 21" by (rule roundToDouble_cm_bound)
    then show "formatMeasurement nts m = digitsOf (nat \<lfloor>roundToDouble (m * 100) + 1 / 2\<rfloor>) @ '' cm''"
      using a by (simp add: formatMeasurement_cm toFixed_0_nonneg)
  qed
  have nonneg: "0 \<le> m \<longrightarrow> 0 \<le> roundToDouble (m * 100)"
    by (simp add: roundToDouble_nonneg)
  have cm_neg: "m < 1 \<and> roundToDouble (m * 100) < 0 \<and> - (10 ^ 21) < roundToDouble (m * 100) \<longrightarrow>
      formatMeasurement nts m =
        ''-'' @ digitsOf (nat \<lfloor>- roundToDouble (m * 100) + 1 / 2\<rfloor>) @ '' cm''"
    by (simp add: formatMeasurement_cm toFixed_0_neg)
  have mt_dec: "1 \<le> m \<and> m < 10 ^ 21 \<longrightarrow>
      formatMeasurement nts m =
        digitsOf (nat \<lfloor>m * 100 + 1 / 2\<rfloor> div 100) @ ''.'' @
        [digitChar (nat \<lfloor>m * 100 + 1 / 2\<rfloor> div 10 mod 10), digitChar (nat \<lfloor>m * 100 + 1 / 2\<rfloor> mod 10)] @
        '' m''"
    by (simp add: formatMeasurement_def toFixed_2_ge_1)
  show ?thesis
    using cm_pos nonneg cm_neg mt_dec digitsOf_digits [of k] formatMeasurement_099 [of nts]
      formatMeasurement_1m [of nts]
    by blast
qed

theorem formatMeasurement_units_witness:
  "formatMeasurement (\<lambda>x. []) (1 / 2) = ''50 cm'' \<and>
   formatMeasurement (\<lambda>x. []) (- (1 / 4)) = ''-25 cm'' \<and>
   formatMeasurement (\<lambda>x. []) (5 / 2) = ''2.50 m''"
proof -
  have r50: "roundToDouble (1 / 2 * 100) = 50"
  proof -
    have "roundToDouble (1 / 2 * 100) =
        pow2 (5 - 52) * of_int (roundTiesToEven ((1 / 2 * 100) / pow2 (5 - 52)))"
      by (rule roundToDouble_at) (simp_all add: pow2_def)
    then show ?thesis by (simp add: pow2_def roundTiesToEven_def Let_def)
  qed
  have r25: "roundToDouble (- (1 / 4) * 100) = - 25"
  proof -
    have "roundToDouble (- (1 / 4) * 100) =
        pow2 (4 - 52) * of_int (roundTiesToEven ((- (1 / 4) * 100) / pow2 (4 - 52)))"
      by (rule roundToDouble_at) (simp_all add: pow2_def)
    then show ?thesis by (simp add: pow2_def roundTiesToEven_def Let_def)
  qed
  have "(1 / 2 :: real) < 1 \<and> 0 \<le> roundToDouble (1 / 2 * 100) \<longrightarrow>
      formatMeasurement (\<lambda>x. []) (1 / 2) = digitsOf (nat \<lfloor>roundToDouble (1 / 2 * 100) + 1 / 2\<rfloor>) @ '' cm''"
    using formatMeasurement_units [of "1 / 2" "\<lambda>x. []" 0] by blast
  then have a: "formatMeasurement (\<lambda>x. []) (1 / 2) = ''50 cm''"
    unfolding r50 by (simp add: digitsOf.simps digitChar_def)
  have "(- (1 / 4) :: real) < 1 \<and> roundToDouble (- (1 / 4) * 100) < 0 \<and>
        - (10 ^ 21) < roundToDouble (- (1 / 4) * 100) \<longrightarrow>
      formatMeasurement (\<lambda>x. []) (- (1 / 4)) =
        ''-'' @ digitsOf (nat \<lfloor>- roundToDouble (- (1 / 4) * 100) + 1 / 2\<rfloor>) @ '' cm''"
    using formatMeasurement_units [of "- (1 / 4)" "\<lambda>x. []" 0] by blast
  then have b: "formatMeasurement (\<lambda>x. []) (- (1 / 4)) = ''-25 cm''"
    unfolding r25 by (simp add: digitsOf.simps digitChar_def)
  have "(1::real) \<le> 5 / 2 \<and> (5 / 2 :: real) < 10 ^ 21 \<longrightarrow>
      formatMeasurement (\<lambda>x. []) (5 / 2) =
        digitsOf (nat \<lfloor>(5 / 2 :: real) * 100 + 1 / 2\<rfloor> div 100) @ ''.'' @
        [digitChar (nat \<lfloor>(5 / 2 :: real) * 100 + 1 / 2\<rfloor> div 10 mod 10),
         digitChar (nat \<lfloor>(5 / 2 :: real) * 100 + 1 / 2\<rfloor> mod 10)] @ '' m''"
    using formatMeasurement_units [of "5 / 2" "\<lambda>x. []" 0] by blast
  then have c: "formatMeasurement (\<lambda>x. []) (5 / 2) = ''2.50 m''"
    by (simp add: digitsOf.simps digitChar_def)
  show ?thesis using a b c by simp
qed

text \<open>
  C3, as stated for every value, fails from \<open>10\<^sup>2\<^sup>1\<close> meters on, where \<^verbatim>\<open>toFixed\<close> hands over to
  \<^verbatim>\<open>Number::toString\<close>: \<open>10\<^sup>2\<^sup>1\<close> is printed in exponential notation, without the two decimal
  places.
\<close>

theorem formatMeasurement_large_counterexample:
  "formatMeasurement numberToString_1e21 (10 ^ 21) = ''1e+21 m'' \<and>
   CHR ''.'' \<notin> set (formatMeasurement numberToString_1e21 (10 ^ 21))"
  by (simp add: formatMeasurement_def toFixed_def numberToString_1e21_def)

section \<open>Properties of the dimension annotation generator\<close>

lemma atan2_bounds: "- pi < atan2 y x \<and> atan2 y x \<le> pi"
proof -
  have b: "- (pi / 2) < arctan (y / x)" "arctan (y / x) < pi / 2"
    using arctan_bounded [of "y / x"] by simp_all
  consider "0 < x" | "x < 0" "0 \<le> y" | "x < 0" "y < 0" | "x = 0"
    by linarith
  then show ?thesis
  proof cases
    case 1
    then show ?thesis using b by (simp add: atan2_def)
  next
    case 2
    then have "y / x \<le> 0" by (simp add: divide_nonneg_neg)
    then have "arctan (y / x) \<le> 0" by simp
    then show ?thesis using 2 b by (simp add: atan2_def)
  next
    case 3
    then have "0 < y / x" by (simp add: divide_neg_neg)
    then have "0 < arctan (y / x)" by simp
    then show ?thesis using 3 b by (simp add: atan2_def)
  next
    case 4
    show ?thesis using 4 pi_gt_zero by (auto simp add: atan2_def; linarith)
  qed
qed

lemma sin_cos_arctan_ratio:
  assumes "x \<noteq> 0"
  shows "sin (arctan (y / x)) * x = cos (arctan (y / x)) * y"
proof -
  have c: "cos (arctan (y / x)) \<noteq> 0" by (rule cos_arctan_not_zero)
  have "sin (arctan (y / x)) / cos (arctan (y / x)) = y / x"
    using tan_arctan [of "y / x"] by (simp add: tan_def)
  then show ?thesis using c assms by (simp add: field_simps)
qed

lemma atan2_direction: "sin (atan2 y x) * x = cos (atan2 y x) * y"
proof (cases "x = 0")
  case True
  then show ?thesis by (simp add: atan2_def)
next
  case False
  then show ?thesis using sin_cos_arctan_ratio [OF False, of y]
    by (simp add: atan2_def sin_diff cos_diff)
qed

lemma atan2_zero [simp]: "atan2 0 0 = 0"
  by (simp add: atan2_def)

lemma textAngle_bounds: "- 180 < textAngle px1 py1 px2 py2 \<and> textAngle px1 py1 px2 py2 \<le> 180"
proof -
  let ?a = "atan2 (py2 - py1) (px2 - px1)"
  have b: "- pi < ?a" "?a \<le> pi" using atan2_bounds [of "py2 - py1" "px2 - px1"] by simp_all
  have "?a * 180 / pi \<le> 180" using b pi_gt_zero by (simp add: field_simps)
  moreover have "- 180 < ?a * 180 / pi" using b pi_gt_zero by (simp add: field_simps)
  ultimately show ?thesis by (simp add: textAngle_def)
qed

lemma adjustedAngle_cases:
  "(- 90 \<le> textAngle px1 py1 px2 py2 \<and> textAngle px1 py1 px2 py2 \<le> 90 \<longrightarrow>
      adjustedAngle px1 py1 px2 py2 = textAngle px1 py1 px2 py2) \<and>
   (textAngle px1 py1 px2 py2 < - 90 \<or> 90 < textAngle px1 py1 px2 py2 \<longrightarrow>
      adjustedAngle px1 py1 px2 py2 = textAngle px1 py1 px2 py2 + 180)"
  by (auto simp add: adjustedAngle_def Let_def)

lemma dimensionElements_length [simp]:
  "length (dimensionElements pf sc r px1 py1 px2 py2 parent d color) = 6"
  by (simp add: dimensionElements_def Let_def)

lemma dimensionElements_refs:
  "map o_ref (dimensionElements pf sc r px1 py1 px2 py2 parent d color) = [r, r + 1, r + 2, r + 3, r + 4, r + 5]"
  by (simp add: dimensionElements_def Let_def measurementObject_def)

lemma dimensionElements_unref:
  "map unref (dimensionElements pf sc r px1 py1 px2 py2 parent d color) =
   map unref (dimensionElements pf sc r' px1 py1 px2 py2 parent d color)"
  by (simp add: dimensionElements_def Let_def measurementObject_def unref_def)

lemma dimensionElements_lines:
  "map o_geometry (take 3 (dimensionElements pf sc r px1 py1 px2 py2 parent d color)) =
     [Line (px1 + sin (atan2 (py2 - py1) (px2 - px1)) * d) (py1 + - cos (atan2 (py2 - py1) (px2 - px1)) * d)
           (px2 + sin (atan2 (py2 - py1) (px2 - px1)) * d) (py2 + - cos (atan2 (py2 - py1) (px2 - px1)) * d),
      Line px1 py1 (px1 + sin (atan2 (py2 - py1) (px2 - px1)) * d) (py1 + - cos (atan2 (py2 - py1) (px2 - px1)) * d),
      Line px2 py2 (px2 + sin (atan2 (py2 - py1) (px2 - px1)) * d) (py2 + - cos (atan2 (py2 - py1) (px2 - px1)) * d)]"
  by (simp add: dimensionElements_def Let_def measurementObject_def)

lemma dimensionElements_label:
  "o_geometry (dimensionElements pf sc r px1 py1 px2 py2 parent d color ! 5) =
     Text (formatMeasurement (numberToString pf) (calculateDistance sc px1 py1 px2 py2))
       ((px1 + px2) / 2 + sin (atan2 (py2 - py1) (px2 - px1)) * d)
       ((py1 + py2) / 2 + - cos (atan2 (py2 - py1) (px2 - px1)) * d - 8)
       (adjustedAngle px1 py1 px2 py2)"
  by (simp add: dimensionElements_def Let_def measurementObject_def)

lemma dimensionElements_tagged:
  "e \<in> set (dimensionElements pf sc r px1 py1 px2 py2 parent d color) \<Longrightarrow>
     o_parentId e = Some parent \<and> o_isMeasurement e \<and> \<not> o_selectable e \<and> \<not> o_evented e \<and> o_id e = None"
  by (auto simp add: dimensionElements_def Let_def measurementObject_def)

lemma createDimensionLine_Some:
  assumes "canvas st = Some objs"
  shows "createDimensionLine pf st px1 py1 px2 py2 parent d color =
     (dimensionElements pf (currentScale st) (nextRef st) px1 py1 px2 py2 parent d color,
      st\<lparr>canvas := Some (objs @ dimensionElements pf (currentScale st) (nextRef st) px1 py1 px2 py2 parent d color),
         nextRef := nextRef st + 6\<rparr>)"
  using assms by (simp add: createDimensionLine_def Let_def)

lemma offset_perpendicular:
  "(sin (atan2 (py2 - py1) (px2 - px1)) * d) * (px2 - px1) + (- cos (atan2 (py2 - py1) (px2 - px1)) * d) * (py2 - py1) = 0"
proof -
  let ?s = "sin (atan2 (py2 - py1) (px2 - px1))" and ?c = "cos (atan2 (py2 - py1) (px2 - px1))"
  have h: "?s * (px2 - px1) = ?c * (py2 - py1)" by (rule atan2_direction)
  have "(?s * d) * (px2 - px1) + (- ?c * d) * (py2 - py1) = d * (?s * (px2 - px1) - ?c * (py2 - py1))"
    by (simp add: algebra_simps)
  also have "\<dots> = 0" using h by simp
  finally show ?thesis .
qed

lemma offset_length:
  "(sin t * d)\<^sup>2 + (- cos t * d)\<^sup>2 = (d::real)\<^sup>2"
proof -
  have "(sin t * d)\<^sup>2 + (- cos t * d)\<^sup>2 = (sin t)\<^sup>2 * d\<^sup>2 + (cos t)\<^sup>2 * d\<^sup>2"
    by (simp add: power_mult_distrib)
  also have "\<dots> = ((sin t)\<^sup>2 + (cos t)\<^sup>2) * d\<^sup>2"
    by (simp only: distrib_right)
  also have "\<dots> = d\<^sup>2" by (simp only: sin_cos_squared_add mult_1)
  finally show ?thesis .
qed



lemma dimensionElements_nonempty [simp]:
  "dimensionElements pf sc r px1 py1 px2 py2 parent d color \<noteq> []"
  by (simp add: dimensionElements_def Let_def)

lemma atan2_170: "atan2 (sin (pi / 18)) (- cos (pi / 18)) = 17 * pi / 18"
proof -
  have c: "0 < cos (pi / 18)" by (rule cos_gt_zero_pi) (use pi_gt_zero in simp_all)
  have s: "0 \<le> sin (pi / 18)" by (rule sin_ge_zero) (use pi_gt_zero in simp_all)
  have "arctan (sin (pi / 18) / - cos (pi / 18)) = - arctan (tan (pi / 18))"
    by (simp add: tan_def arctan_minus)
  also have "\<dots> = - (pi / 18)"
    using arctan_tan [of "pi / 18"] pi_gt_zero by simp
  finally show ?thesis using c s by (simp add: atan2_def)
qed

lemma textAngle_170: "textAngle 0 0 (- cos (pi / 18)) (sin (pi / 18)) = 170"
  by (simp add: textAngle_def atan2_170)

lemma adjustedAngle_170: "adjustedAngle 0 0 (- cos (pi / 18)) (sin (pi / 18)) = 350"
  by (simp add: adjustedAngle_def textAngle_170 Let_def)

text \<open>
  C4 (as amended). The label's angle is the raw edge angle \<open>atan2(\<Delta>y, \<Delta>x)\<close> in degrees,
  which lies in \<open>(-180, 180]\<close>, when that lies in \<open>[-90, 90]\<close>, and the raw angle plus 180
  otherwise: a raw angle below \<open>-90\<close> gives an angle in \<open>(0, 90)\<close>, a raw angle above \<open>90\<close>
  gives one in \<open>(270, 360]\<close>, which is the orientation of an angle in \<open>(-90, 0]\<close>. A raw angle
  of 170 gives 350.
\<close>

theorem label_angle_flipped:
  assumes "canvas st = Some objs"
  shows
    "g_angle (o_geometry (fst (createDimensionLine pf st px1 py1 px2 py2 parent d color) ! 5)) =
       adjustedAngle px1 py1 px2 py2 \<and>
     textAngle px1 py1 px2 py2 = atan2 (py2 - py1) (px2 - px1) * 180 / pi \<and>
     - 180 < textAngle px1 py1 px2 py2 \<and> textAngle px1 py1 px2 py2 \<le> 180 \<and>
     (- 90 \<le> textAngle px1 py1 px2 py2 \<and> textAngle px1 py1 px2 py2 \<le> 90 \<longrightarrow>
        adjustedAngle px1 py1 px2 py2 = textAngle px1 py1 px2 py2) \<and>
     (textAngle px1 py1 px2 py2 < - 90 \<longrightarrow>
        adjustedAngle px1 py1 px2 py2 = textAngle px1 py1 px2 py2 + 180 \<and>
        0 < adjustedAngle px1 py1 px2 py2 \<and> adjustedAngle px1 py1 px2 py2 < 90) \<and>
     (90 < textAngle px1 py1 px2 py2 \<longrightarrow>
        adjustedAngle px1 py1 px2 py2 = textAngle px1 py1 px2 py2 + 180 \<and>
        270 < adjustedAngle px1 py1 px2 py2 \<and> adjustedAngle px1 py1 px2 py2 \<le> 360)"
proof -
  have g: "g_angle (o_geometry (fst (createDimensionLine pf st px1 py1 px2 py2 parent d color) ! 5)) =
       adjustedAngle px1 py1 px2 py2"
    by (simp add: createDimensionLine_Some [OF assms] dimensionElements_label)
  have t: "textAngle px1 py1 px2 py2 = atan2 (py2 - py1) (px2 - px1) * 180 / pi"
    by (simp add: textAngle_def)
  show ?thesis
    using g t textAngle_bounds [of px1 py1 px2 py2] adjustedAngle_cases [of px1 py1 px2 py2]
    by auto
qed

theorem label_angle_flipped_witness:
  "canvas initialEditor = Some [] \<and>
   g_angle (o_geometry (fst (createDimensionLine plainPlatform initialEditor 0 0 (- cos (pi / 18)) (sin (pi / 18))
      ''s'' 20 ''#fbbf24'') ! 5)) = 350 \<and>
   g_angle (o_geometry (fst (createDimensionLine plainPlatform initialEditor 0 0 10 0 ''s'' 20 ''#fbbf24'') ! 5)) = 0"
proof -
  have c: "canvas initialEditor = Some []" by (simp add: initialEditor_def)
  have z: "adjustedAngle 0 0 10 0 = 0" by (simp add: adjustedAngle_def textAngle_def atan2_def)
  show ?thesis
    using c
      label_angle_flipped [OF c, where pf = plainPlatform and ?px1.0 = 0 and ?py1.0 = 0
        and ?px2.0 = "- cos (pi / 18)" and ?py2.0 = "sin (pi / 18)" and parent = "''s''" and d = 20
        and color = "''#fbbf24''"]
      label_angle_flipped [OF c, where pf = plainPlatform and ?px1.0 = 0 and ?py1.0 = 0
        and ?px2.0 = 10 and ?py2.0 = 0 and parent = "''s''" and d = 20 and color = "''#fbbf24''"]
    by (simp add: adjustedAngle_170 z)
qed

text \<open>
  The claim as stated fails: the edge from \<open>(0, 0)\<close> to \<open>(- cos 10\<degree>, sin 10\<degree>)\<close> has the raw
  angle 170, and its label angle is not \<open>-10\<close>.
\<close>

theorem label_angle_170_counterexample:
  "textAngle 0 0 (- cos (pi / 18)) (sin (pi / 18)) = 170 \<and>
   g_angle (o_geometry (fst (createDimensionLine plainPlatform initialEditor 0 0 (- cos (pi / 18)) (sin (pi / 18))
      ''s'' 20 ''#fbbf24'') ! 5)) \<noteq> - 10"
proof -
  have c: "canvas initialEditor = Some []" by (simp add: initialEditor_def)
  show ?thesis
    by (simp add: textAngle_170 createDimensionLine_Some [OF c] dimensionElements_label adjustedAngle_170)
qed

text \<open>
  C5 (as amended). With \<open>\<theta> = atan2(\<Delta>y, \<Delta>x)\<close> and the offset vector \<open>(sin \<theta>, - cos \<theta>) \<cdot> d\<close>, which is
  perpendicular to the edge and of length \<open>|d|\<close>: the dimension line is the edge moved by
  the offset vector, each extension line joins an end point to its moved counterpart,
  and the label is placed 8 pixels above the midpoint of the dimension line (the same
  \<open>x\<close>, \<open>y\<close> less 8). The six primitives are added to the canvas.
\<close>

theorem dimension_geometry:
  assumes "canvas st = Some objs"
  shows
    "\<exists>theta ox oy.
       theta = atan2 (py2 - py1) (px2 - px1) \<and> ox = sin theta * d \<and> oy = - cos theta * d \<and>
       map o_geometry (take 3 (fst (createDimensionLine pf st px1 py1 px2 py2 parent d color))) =
         [Line (px1 + ox) (py1 + oy) (px2 + ox) (py2 + oy),
          Line px1 py1 (px1 + ox) (py1 + oy),
          Line px2 py2 (px2 + ox) (py2 + oy)] \<and>
       g_left (o_geometry (fst (createDimensionLine pf st px1 py1 px2 py2 parent d color) ! 5)) =
         ((px1 + ox) + (px2 + ox)) / 2 \<and>
       g_top (o_geometry (fst (createDimensionLine pf st px1 py1 px2 py2 parent d color) ! 5)) =
         ((py1 + oy) + (py2 + oy)) / 2 - 8 \<and>
       ox * (px2 - px1) + oy * (py2 - py1) = 0 \<and>
       ox\<^sup>2 + oy\<^sup>2 = d\<^sup>2 \<and>
       length (fst (createDimensionLine pf st px1 py1 px2 py2 parent d color)) = 6 \<and>
       canvas (snd (createDimensionLine pf st px1 py1 px2 py2 parent d color)) =
         Some (objs @ fst (createDimensionLine pf st px1 py1 px2 py2 parent d color))"
    (is "\<exists>theta ox oy. ?P theta ox oy")
proof -
  define theta where "theta = atan2 (py2 - py1) (px2 - px1)"
  define ox where "ox = sin theta * d"
  define oy where "oy = - cos theta * d"
  let ?els = "fst (createDimensionLine pf st px1 py1 px2 py2 parent d color)"
  have e: "?els = dimensionElements pf (currentScale st) (nextRef st) px1 py1 px2 py2 parent d color"
    by (simp add: createDimensionLine_Some [OF assms])
  have l: "map o_geometry (take 3 ?els) =
       [Line (px1 + ox) (py1 + oy) (px2 + ox) (py2 + oy),
        Line px1 py1 (px1 + ox) (py1 + oy),
        Line px2 py2 (px2 + ox) (py2 + oy)]"
    unfolding e ox_def oy_def theta_def by (rule dimensionElements_lines)
  have t1: "g_left (o_geometry (?els ! 5)) = ((px1 + ox) + (px2 + ox)) / 2"
    unfolding e ox_def oy_def theta_def by (simp add: dimensionElements_label field_simps)
  have t2: "g_top (o_geometry (?els ! 5)) = ((py1 + oy) + (py2 + oy)) / 2 - 8"
    unfolding e ox_def oy_def theta_def by (simp add: dimensionElements_label field_simps)
  have p: "ox * (px2 - px1) + oy * (py2 - py1) = 0"
    unfolding ox_def oy_def theta_def by (rule offset_perpendicular)
  have n: "ox\<^sup>2 + oy\<^sup>2 = d\<^sup>2"
    unfolding ox_def oy_def by (rule offset_length)
  have c: "canvas (snd (createDimensionLine pf st px1 py1 px2 py2 parent d color)) = Some (objs @ ?els)"
    by (simp add: createDimensionLine_Some [OF assms])
  have len: "length ?els = 6" by (simp add: e)
  have "?P theta ox oy"
    using theta_def ox_def oy_def l t1 t2 p n len c by (intro conjI)
  then show ?thesis by (intro exI)
qed

theorem dimension_geometry_witness:
  "canvas initialEditor = Some [] \<and>
   map o_geometry (take 3 (fst (createDimensionLine plainPlatform initialEditor 0 0 10 0 ''s'' 20 ''#fbbf24''))) =
     [Line 0 (- 20) 10 (- 20), Line 0 0 0 (- 20), Line 10 0 10 (- 20)] \<and>
   g_left (o_geometry (fst (createDimensionLine plainPlatform initialEditor 0 0 10 0 ''s'' 20 ''#fbbf24'') ! 5)) = 5 \<and>
   g_top (o_geometry (fst (createDimensionLine plainPlatform initialEditor 0 0 10 0 ''s'' 20 ''#fbbf24'') ! 5)) = - 28"
proof -
  have c: "canvas initialEditor = Some []" by (simp add: initialEditor_def)
  have a: "atan2 (0 - 0) (10 - 0) = 0" by (simp add: atan2_def)
  from dimension_geometry [OF c, where pf = plainPlatform and ?px1.0 = 0 and ?py1.0 = 0 and ?px2.0 = 10
      and ?py2.0 = 0 and parent = "''s''" and d = 20 and color = "''#fbbf24''"]
  obtain theta ox oy where
    h: "theta = atan2 (0 - 0) (10 - 0)" "ox = sin theta * 20" "oy = - cos theta * 20"
      "map o_geometry (take 3 (fst (createDimensionLine plainPlatform initialEditor 0 0 10 0 ''s'' 20 ''#fbbf24''))) =
         [Line (0 + ox) (0 + oy) (10 + ox) (0 + oy), Line 0 0 (0 + ox) (0 + oy), Line 10 0 (10 + ox) (0 + oy)]"
      "g_left (o_geometry (fst (createDimensionLine plainPlatform initialEditor 0 0 10 0 ''s'' 20 ''#fbbf24'') ! 5)) =
         ((0 + ox) + (10 + ox)) / 2"
      "g_top (o_geometry (fst (createDimensionLine plainPlatform initialEditor 0 0 10 0 ''s'' 20 ''#fbbf24'') ! 5)) =
         ((0 + oy) + (0 + oy)) / 2 - 8"
    by (elim exE conjE)
  have "theta = 0" using h(1) a by simp
  then have "ox = 0" "oy = - 20" using h(2,3) by simp_all
  then show ?thesis using c h(4,5,6) by simp
qed

text \<open>
  The claim as stated fails: for the edge from \<open>(0, 0)\<close> to \<open>(10, 0)\<close> at offset 20 the
  dimension line runs from \<open>(0, -20)\<close> to \<open>(10, -20)\<close>, and the label is not at its midpoint.
\<close>

theorem label_position_counterexample:
  "o_geometry (fst (createDimensionLine plainPlatform initialEditor 0 0 10 0 ''s'' 20 ''#fbbf24'') ! 0) =
     Line 0 (- 20) 10 (- 20) \<and>
   (g_left (o_geometry (fst (createDimensionLine plainPlatform initialEditor 0 0 10 0 ''s'' 20 ''#fbbf24'') ! 5)),
    g_top (o_geometry (fst (createDimensionLine plainPlatform initialEditor 0 0 10 0 ''s'' 20 ''#fbbf24'') ! 5))) \<noteq>
     ((0 + 10) / 2, (- 20 + - 20) / 2)"
  by (simp add: createDimensionLine_def initialEditor_def plainPlatform_def dimensionElements_def Let_def
      measurementObject_def calculateDistance_def pixelsToMeters_def adjustedAngle_def textAngle_def atan2_def)

text \<open>
  C6 (as amended). An edge of zero length is not rejected: with a canvas, the generator
  returns and adds all six primitives. The angle is \<open>atan2(0, 0) = 0\<close>, so the dimension line
  degenerates to the point \<open>d\<close> above the end point, both extension lines run from the end
  point to it, and the label reads \<^verbatim>\<open>"0 cm"\<close> at angle 0; nothing is reported to the caller.
\<close>

theorem zero_length_edge_annotated:
  assumes "canvas st = Some objs" and "0 < pixelsPerMeter (currentScale st)"
  shows
    "length (fst (createDimensionLine pf st px py px py parent d color)) = 6 \<and>
     map o_geometry (take 3 (fst (createDimensionLine pf st px py px py parent d color))) =
       [Line px (py - d) px (py - d), Line px py px (py - d), Line px py px (py - d)] \<and>
     o_geometry (fst (createDimensionLine pf st px py px py parent d color) ! 5) =
       Text ''0 cm'' px (py - d - 8) 0 \<and>
     canvas (snd (createDimensionLine pf st px py px py parent d color)) =
       Some (objs @ fst (createDimensionLine pf st px py px py parent d color)) \<and>
     nextRef (snd (createDimensionLine pf st px py px py parent d color)) = nextRef st + 6"
proof -
  have d0: "calculateDistance (currentScale st) px py px py = 0"
    by (simp add: calculateDistance_def pixelsToMeters_def)
  have a0: "adjustedAngle px py px py = 0"
    by (simp add: adjustedAngle_def textAngle_def Let_def)
  show ?thesis
    by (simp add: createDimensionLine_Some [OF assms(1)] dimensionElements_lines dimensionElements_label
        d0 a0 formatMeasurement_0)
qed

theorem zero_length_edge_annotated_witness:
  "canvas initialEditor = Some [] \<and> 0 < pixelsPerMeter (currentScale initialEditor) \<and>
   o_geometry (fst (createDimensionLine plainPlatform initialEditor 3 4 3 4 ''s'' 20 ''#fbbf24'') ! 5) =
     Text ''0 cm'' 3 (- 24) 0"
proof -
  have c: "canvas initialEditor = Some []" by (simp add: initialEditor_def)
  have p: "0 < pixelsPerMeter (currentScale initialEditor)" by (simp add: initialEditor_def)
  show ?thesis
    using c p
      zero_length_edge_annotated [OF c p, where pf = plainPlatform and px = 3 and py = 4
        and parent = "''s''" and d = 20 and color = "''#fbbf24''"]
    by simp
qed

text \<open>
  The claim as stated fails: for the edge from \<open>(3, 4)\<close> to \<open>(3, 4)\<close> the generator returns
  primitives and changes the canvas.
\<close>

theorem zero_length_edge_counterexample:
  "fst (createDimensionLine plainPlatform initialEditor 3 4 3 4 ''s'' 20 ''#fbbf24'') \<noteq> [] \<and>
   canvas (snd (createDimensionLine plainPlatform initialEditor 3 4 3 4 ''s'' 20 ''#fbbf24'')) \<noteq>
     canvas initialEditor"
  by (simp add: createDimensionLine_Some initialEditor_def)

section \<open>Properties of the annotation sets\<close>

lemma addRectMeasurements_Some:
  assumes "canvas st = Some objs"
  shows "addRectMeasurements pf st rect ident =
     st\<lparr>canvas := Some (objs @ rectElements pf (currentScale st) (nextRef st) (o_geometry rect) ident),
        nextRef := nextRef st + 12,
        measurementLabels :=
          (measurementLabels st)(ident \<mapsto> rectElements pf (currentScale st) (nextRef st) (o_geometry rect) ident)\<rparr>"
  using assms
  by (simp add: addRectMeasurements_def rectElements_def Let_def createDimensionLine_def)

lemma addLineMeasurement_Some:
  assumes "canvas st = Some objs"
  shows "addLineMeasurement pf st line ident =
     st\<lparr>canvas := Some (objs @ lineElements pf (currentScale st) (nextRef st) (o_geometry line) ident),
        nextRef := nextRef st + 6,
        measurementLabels :=
          (measurementLabels st)(ident \<mapsto> lineElements pf (currentScale st) (nextRef st) (o_geometry line) ident)\<rparr>"
  using assms
  by (simp add: addLineMeasurement_def lineElements_def Let_def createDimensionLine_def)

lemma addCircleMeasurements_Some:
  assumes "canvas st = Some objs"
  shows "addCircleMeasurements pf st circle ident =
     st\<lparr>canvas := Some (objs @ circleElements pf (currentScale st) (nextRef st) (o_geometry circle) ident),
        nextRef := nextRef st + 2,
        measurementLabels :=
          (measurementLabels st)(ident \<mapsto> circleElements pf (currentScale st) (nextRef st) (o_geometry circle) ident)\<rparr>"
  using assms
  by (simp add: addCircleMeasurements_def circleElements_def Let_def)

lemma polygonEdgeStep_Some:
  assumes "canvas st = Some objs"
  shows "polygonEdgeStep pf pts mtx ident i (acc, st) =
     (acc @ edgeElements pf (currentScale st) (nextRef st) pts mtx ident i,
      st\<lparr>canvas := Some (objs @ edgeElements pf (currentScale st) (nextRef st) pts mtx ident i),
         nextRef := nextRef st + 6\<rparr>)"
  using assms by (simp add: polygonEdgeStep_def edgeElements_def Let_def createDimensionLine_def)


lemma fold_polygonEdgeStep:
  assumes "canvas st = Some objs"
  shows "fold (polygonEdgeStep pf pts mtx ident) is (acc, st) =
     (acc @ polygonElements pf (currentScale st) (nextRef st) pts mtx ident is,
      st\<lparr>canvas := Some (objs @ polygonElements pf (currentScale st) (nextRef st) pts mtx ident is),
         nextRef := nextRef st + 6 * length is\<rparr>)"
  using assms
proof (induction "is" arbitrary: acc st objs)
  case Nil
  then show ?case by simp
next
  case (Cons i "is")
  let ?e = "edgeElements pf (currentScale st) (nextRef st) pts mtx ident i"
  let ?st1 = "st\<lparr>canvas := Some (objs @ ?e), nextRef := nextRef st + 6\<rparr>"
  have c1: "canvas ?st1 = Some (objs @ ?e)" by simp
  show ?case
    by (simp add: polygonEdgeStep_Some [OF Cons.prems] Cons.IH [OF c1])
qed

lemma addPolygonMeasurements_Some:
  assumes "canvas st = Some objs" and "\<not> length (g_points (o_geometry polygon)) < 2"
  shows "addPolygonMeasurements pf st polygon ident =
     st\<lparr>canvas := Some (objs @ polygonElements pf (currentScale st) (nextRef st) (g_points (o_geometry polygon))
                                 (calcTransformMatrix pf polygon) ident [0 ..< length (g_points (o_geometry polygon))]),
        nextRef := nextRef st + 6 * length (g_points (o_geometry polygon)),
        measurementLabels :=
          (measurementLabels st)(ident \<mapsto> polygonElements pf (currentScale st) (nextRef st) (g_points (o_geometry polygon))
                                 (calcTransformMatrix pf polygon) ident [0 ..< length (g_points (o_geometry polygon))])\<rparr>"
  using assms(2)
  by (simp add: addPolygonMeasurements_def Let_def fold_polygonEdgeStep [OF assms(1)])

lemma addPolygonMeasurements_few:
  assumes "length (g_points (o_geometry polygon)) < 2"
  shows "addPolygonMeasurements pf st polygon ident = st"
  using assms by (simp add: addPolygonMeasurements_def Let_def)


lemma canvasRemove_absent:
  "o_ref m \<notin> o_ref ` set xs \<Longrightarrow> canvasRemove m xs = xs"
  by (induction xs) auto

lemma canvasRemove_last:
  "o_ref t \<notin> o_ref ` set xs \<Longrightarrow> canvasRemove t (xs @ [t]) = xs"
  by (induction xs) auto

lemma set_canvasRemove: "set (canvasRemove m xs) \<subseteq> set xs"
  by (induction xs) auto

lemma distinct_canvasRemove:
  "distinct (map o_ref xs) \<Longrightarrow> distinct (map o_ref (canvasRemove m xs))"
  using set_canvasRemove [of m] by (induction xs) auto

lemma canvasRemove_gone:
  "distinct (map o_ref xs) \<Longrightarrow> o_ref m \<notin> o_ref ` set (canvasRemove m xs)"
  by (induction xs) auto

lemma canvasRemove_keeps:
  "x \<in> set xs \<Longrightarrow> o_ref x \<noteq> o_ref m \<Longrightarrow> x \<in> set (canvasRemove m xs)"
  by (induction xs) auto

lemma set_fold_canvasRemove: "set (fold canvasRemove ms xs) \<subseteq> set xs"
proof (induction ms arbitrary: xs)
  case Nil
  then show ?case by simp
next
  case (Cons m ms)
  show ?case using Cons.IH [of "canvasRemove m xs"] set_canvasRemove [of m xs] by auto
qed

lemma distinct_fold_canvasRemove:
  "distinct (map o_ref xs) \<Longrightarrow> distinct (map o_ref (fold canvasRemove ms xs))"
  by (induction ms arbitrary: xs) (simp_all add: distinct_canvasRemove)

lemma fold_canvasRemove_gone:
  assumes "distinct (map o_ref xs)" and "m \<in> set ms"
  shows "o_ref m \<notin> o_ref ` set (fold canvasRemove ms xs)"
  using assms
proof (induction ms arbitrary: xs)
  case Nil
  then show ?case by simp
next
  case (Cons a ms)
  have d: "distinct (map o_ref (canvasRemove a xs))" using Cons.prems(1) by (rule distinct_canvasRemove)
  show ?case
  proof (cases "m \<in> set ms")
    case True
    then show ?thesis using Cons.IH [OF d] by simp
  next
    case False
    then have "m = a" using Cons.prems(2) by simp
    then have "o_ref m \<notin> o_ref ` set (canvasRemove a xs)"
      using canvasRemove_gone [OF Cons.prems(1), of a] by simp
    then show ?thesis using set_fold_canvasRemove [of ms "canvasRemove a xs"] by auto
  qed
qed

lemma fold_canvasRemove_keeps:
  assumes "x \<in> set xs" and "o_ref x \<notin> o_ref ` set ms"
  shows "x \<in> set (fold canvasRemove ms xs)"
  using assms by (induction ms arbitrary: xs) (auto simp add: canvasRemove_keeps)

lemma removeMeasurements_fields:
  assumes "canvas st = Some objs"
  shows "canvas (removeMeasurements st ident) =
           Some (case measurementLabels st ident of None \<Rightarrow> objs | Some old \<Rightarrow> fold canvasRemove old objs)"
    and "measurementLabels (removeMeasurements st ident) = (measurementLabels st)(ident := None)"
    and "nextRef (removeMeasurements st ident) = nextRef st"
    and "currentScale (removeMeasurements st ident) = currentScale st"
  using assms by (auto simp add: removeMeasurements_def split: option.splits)

lemma updateObjectMeasurements_fields:
  assumes "canvas st = Some objs" and "o_id obj = Some ident" and "ident \<noteq> []"
  shows "canvas (updateObjectMeasurements pf st obj) =
           Some ((case measurementLabels st ident of None \<Rightarrow> objs | Some old \<Rightarrow> fold canvasRemove old objs) @
                 (case annotationsFor pf (currentScale st) (nextRef st) obj ident of None \<Rightarrow> [] | Some new \<Rightarrow> new))"
    and "measurementLabels (updateObjectMeasurements pf st obj) =
           (measurementLabels st)(ident := annotationsFor pf (currentScale st) (nextRef st) obj ident)"
    and "currentScale (updateObjectMeasurements pf st obj) = currentScale st"
proof -
  let ?st1 = "removeMeasurements st ident"
  note r = removeMeasurements_fields [OF assms(1), of ident]
  have u: "updateObjectMeasurements pf st obj =
      (if o_type obj = ''rect'' then addRectMeasurements pf ?st1 obj ident
       else if o_type obj = ''polygon'' then addPolygonMeasurements pf ?st1 obj ident
       else if o_type obj = ''line'' then addLineMeasurement pf ?st1 obj ident
       else if o_type obj = ''circle'' then addCircleMeasurements pf ?st1 obj ident
       else ?st1)"
    using assms(2,3) by (simp add: updateObjectMeasurements_def Let_def)
  show "canvas (updateObjectMeasurements pf st obj) =
           Some ((case measurementLabels st ident of None \<Rightarrow> objs | Some old \<Rightarrow> fold canvasRemove old objs) @
                 (case annotationsFor pf (currentScale st) (nextRef st) obj ident of None \<Rightarrow> [] | Some new \<Rightarrow> new))"
    unfolding u
    by (simp add: annotationsFor_def addRectMeasurements_Some [OF r(1)] addLineMeasurement_Some [OF r(1)]
        addCircleMeasurements_Some [OF r(1)] addPolygonMeasurements_Some [OF r(1)]
        addPolygonMeasurements_few r)
  show "measurementLabels (updateObjectMeasurements pf st obj) =
           (measurementLabels st)(ident := annotationsFor pf (currentScale st) (nextRef st) obj ident)"
    unfolding u
    by (simp add: annotationsFor_def addRectMeasurements_Some [OF r(1)] addLineMeasurement_Some [OF r(1)]
        addCircleMeasurements_Some [OF r(1)] addPolygonMeasurements_Some [OF r(1)]
        addPolygonMeasurements_few r)
  show "currentScale (updateObjectMeasurements pf st obj) = currentScale st"
    unfolding u
    by (cases "length (g_points (o_geometry obj)) < 2")
      (simp_all add: addRectMeasurements_Some [OF r(1)] addLineMeasurement_Some [OF r(1)]
        addCircleMeasurements_Some [OF r(1)] addPolygonMeasurements_Some [OF r(1)]
        addPolygonMeasurements_few r)
qed


lemma dimensionElements_fresh:
  "e \<in> set (dimensionElements pf sc r px1 py1 px2 py2 parent d color) \<Longrightarrow> r \<le> o_ref e"
  by (auto simp add: dimensionElements_def Let_def measurementObject_def)

lemma polygonElements_fresh:
  "e \<in> set (polygonElements pf sc r pts mtx ident is) \<Longrightarrow> r \<le> o_ref e"
proof (induction "is" arbitrary: r)
  case Nil
  then show ?case by simp
next
  case (Cons i "is")
  then show ?case
    using dimensionElements_fresh Cons.IH [of "r + 6"] by (fastforce simp add: edgeElements_def)
qed

lemma polygonElements_tagged:
  "e \<in> set (polygonElements pf sc r pts mtx ident is) \<Longrightarrow> o_parentId e = Some ident \<and> o_isMeasurement e"
proof (induction "is" arbitrary: r)
  case Nil
  then show ?case by simp
next
  case (Cons i "is")
  then show ?case
    using dimensionElements_tagged Cons.IH [of "r + 6"] by (fastforce simp add: edgeElements_def)
qed

lemma polygonElements_unref:
  "map unref (polygonElements pf sc r pts mtx ident is) = map unref (polygonElements pf sc r' pts mtx ident is)"
proof (induction "is" arbitrary: r r')
  case Nil
  then show ?case by simp
next
  case (Cons i "is")
  show ?case
    using Cons.IH [of "r + 6" "r' + 6"] dimensionElements_unref
    by (simp add: edgeElements_def)
qed

lemma annotationsFor_fresh:
  assumes "annotationsFor pf sc r obj ident = Some new" and "e \<in> set new"
  shows "r \<le> o_ref e \<and> o_parentId e = Some ident \<and> o_isMeasurement e"
proof -
  consider
      (rect) "new = rectElements pf sc r (o_geometry obj) ident"
    | (poly) "new = polygonElements pf sc r (g_points (o_geometry obj)) (calcTransformMatrix pf obj) ident
               [0 ..< length (g_points (o_geometry obj))]"
    | (line) "new = lineElements pf sc r (o_geometry obj) ident"
    | (circ) "new = circleElements pf sc r (o_geometry obj) ident"
    using assms(1) by (auto simp add: annotationsFor_def split: if_splits)
  then show ?thesis
  proof cases
    case rect
    then have "e \<in> set (dimensionElements pf sc r (js_or (g_left (o_geometry obj)) 0)
          (js_or (g_top (o_geometry obj)) 0 + js_or (g_height (o_geometry obj)) 0 * js_or (g_scaleY (o_geometry obj)) 1)
          (js_or (g_left (o_geometry obj)) 0 + js_or (g_width (o_geometry obj)) 0 * js_or (g_scaleX (o_geometry obj)) 1)
          (js_or (g_top (o_geometry obj)) 0 + js_or (g_height (o_geometry obj)) 0 * js_or (g_scaleY (o_geometry obj)) 1)
          ident 25 ''#fbbf24'') \<or>
        e \<in> set (dimensionElements pf sc (r + 6)
          (js_or (g_left (o_geometry obj)) 0 + js_or (g_width (o_geometry obj)) 0 * js_or (g_scaleX (o_geometry obj)) 1)
          (js_or (g_top (o_geometry obj)) 0)
          (js_or (g_left (o_geometry obj)) 0 + js_or (g_width (o_geometry obj)) 0 * js_or (g_scaleX (o_geometry obj)) 1)
          (js_or (g_top (o_geometry obj)) 0 + js_or (g_height (o_geometry obj)) 0 * js_or (g_scaleY (o_geometry obj)) 1)
          ident 25 ''#fbbf24'')"
      using assms(2) by (simp add: rectElements_def Let_def)
    then show ?thesis using dimensionElements_fresh dimensionElements_tagged by fastforce
  next
    case poly
    then show ?thesis using assms(2) polygonElements_fresh polygonElements_tagged by blast
  next
    case line
    then have m: "e \<in> set (dimensionElements pf sc r (js_or (g_x1 (o_geometry obj)) 0)
        (js_or (g_y1 (o_geometry obj)) 0) (js_or (g_x2 (o_geometry obj)) 0)
        (js_or (g_y2 (o_geometry obj)) 0) ident 20 ''#fbbf24'')"
      using assms(2) by (simp add: lineElements_def)
    show ?thesis using dimensionElements_fresh [OF m] dimensionElements_tagged [OF m] by simp
  next
    case circ
    then show ?thesis using assms(2) by (auto simp add: circleElements_def Let_def measurementObject_def)
  qed
qed

lemma annotationsFor_unref:
  "map_option (map unref) (annotationsFor pf sc r obj ident) =
   map_option (map unref) (annotationsFor pf sc r' obj ident)"
proof -
  have rect: "map unref (rectElements pf sc r (o_geometry obj) ident) =
      map unref (rectElements pf sc r' (o_geometry obj) ident)"
    using dimensionElements_unref by (simp add: rectElements_def Let_def)
  have line: "map unref (lineElements pf sc r (o_geometry obj) ident) =
      map unref (lineElements pf sc r' (o_geometry obj) ident)"
    using dimensionElements_unref by (simp add: lineElements_def)
  have circ: "map unref (circleElements pf sc r (o_geometry obj) ident) =
      map unref (circleElements pf sc r' (o_geometry obj) ident)"
    by (simp add: circleElements_def Let_def measurementObject_def unref_def)
  show ?thesis
    using rect line circ polygonElements_unref by (simp add: annotationsFor_def)
qed


text \<open>
  C8. \<^verbatim>\<open>updateObjectMeasurements\<close> is the handler of \<^verbatim>\<open>object:modified\<close>, \<^verbatim>\<open>object:scaling\<close> and
  \<^verbatim>\<open>object:moving\<close>. For a shape with an id, on a canvas whose objects are distinct and
  whose stored annotations of that id were created earlier: the sets stored under every
  other id are unchanged; the set stored under the id is the closed form
  \<open>annotationsFor\<close>, a function of the shape's current geometry and the scale, so it is
  the same (up to the identity of the new objects) from whatever state the update
  starts; none of the old primitives of the id is on the canvas afterwards, every new one
  is, is a new object and is tagged with the id; and every canvas object that was not an
  old primitive of the id stays on the canvas.
\<close>

theorem updateObjectMeasurements_regenerates:
  assumes "canvas st = Some objs" and "o_id obj = Some ident" and "ident \<noteq> []"
    and "distinct (map o_ref objs)"
    and "\<forall>old. measurementLabels st ident = Some old \<longrightarrow> (\<forall>m\<in>set old. o_ref m < nextRef st)"
    and "canvas st' = Some objs'" and "currentScale st' = currentScale st"
  shows
    "(\<forall>other. other \<noteq> ident \<longrightarrow>
        measurementLabels (updateObjectMeasurements pf st obj) other = measurementLabels st other) \<and>
     measurementLabels (updateObjectMeasurements pf st obj) ident =
       annotationsFor pf (currentScale st) (nextRef st) obj ident \<and>
     map_option (map unref) (measurementLabels (updateObjectMeasurements pf st obj) ident) =
       map_option (map unref) (measurementLabels (updateObjectMeasurements pf st' obj) ident) \<and>
     (\<exists>objs2. canvas (updateObjectMeasurements pf st obj) = Some objs2 \<and>
        (\<forall>old m. measurementLabels st ident = Some old \<and> m \<in> set old \<longrightarrow> o_ref m \<notin> o_ref ` set objs2) \<and>
        (\<forall>new e. measurementLabels (updateObjectMeasurements pf st obj) ident = Some new \<and> e \<in> set new \<longrightarrow>
           e \<in> set objs2 \<and> nextRef st \<le> o_ref e \<and> o_parentId e = Some ident) \<and>
        (\<forall>x. x \<in> set objs \<and> (\<forall>old. measurementLabels st ident = Some old \<longrightarrow> o_ref x \<notin> o_ref ` set old) \<longrightarrow>
           x \<in> set objs2))"
proof -
  note f = updateObjectMeasurements_fields [OF assms(1,2,3), of pf]
  note f' = updateObjectMeasurements_fields [OF assms(6) assms(2,3), of pf]
  let ?rest = "case measurementLabels st ident of None \<Rightarrow> objs | Some old \<Rightarrow> fold canvasRemove old objs"
  let ?new = "annotationsFor pf (currentScale st) (nextRef st) obj ident"
  let ?added = "case ?new of None \<Rightarrow> [] | Some new \<Rightarrow> new"
  have frame: "\<forall>other. other \<noteq> ident \<longrightarrow>
        measurementLabels (updateObjectMeasurements pf st obj) other = measurementLabels st other"
    by (simp add: f(2))
  have regen: "measurementLabels (updateObjectMeasurements pf st obj) ident = ?new"
    by (simp add: f(2))
  have indep: "map_option (map unref) (measurementLabels (updateObjectMeasurements pf st obj) ident) =
       map_option (map unref) (measurementLabels (updateObjectMeasurements pf st' obj) ident)"
    using annotationsFor_unref [of pf "currentScale st" "nextRef st" obj ident "nextRef st'"]
    by (simp add: f(2) f'(2) assms(7))
  have fresh: "\<And>new e. ?new = Some new \<Longrightarrow> e \<in> set new \<Longrightarrow>
      nextRef st \<le> o_ref e \<and> o_parentId e = Some ident"
    using annotationsFor_fresh by blast
  have rest_sub: "set ?rest \<subseteq> set objs"
    using set_fold_canvasRemove by (auto split: option.splits)
  have gone: "\<forall>old m. measurementLabels st ident = Some old \<and> m \<in> set old \<longrightarrow>
      o_ref m \<notin> o_ref ` set (?rest @ ?added)"
  proof (intro allI impI)
    fix old m
    assume a: "measurementLabels st ident = Some old \<and> m \<in> set old"
    then have r: "o_ref m \<notin> o_ref ` set ?rest"
      using fold_canvasRemove_gone [OF assms(4), of m old] by simp
    have lt: "o_ref m < nextRef st" using a assms(5) by blast
    have "o_ref m \<notin> o_ref ` set ?added"
    proof (cases ?new)
      case None
      then show ?thesis by simp
    next
      case (Some new)
      then show ?thesis using fresh [OF Some] lt by fastforce
    qed
    then show "o_ref m \<notin> o_ref ` set (?rest @ ?added)" using r by auto
  qed
  have present: "\<forall>new e. measurementLabels (updateObjectMeasurements pf st obj) ident = Some new \<and> e \<in> set new \<longrightarrow>
      e \<in> set (?rest @ ?added) \<and> nextRef st \<le> o_ref e \<and> o_parentId e = Some ident"
    using fresh by (auto simp add: regen)
  have kept: "\<forall>x. x \<in> set objs \<and> (\<forall>old. measurementLabels st ident = Some old \<longrightarrow> o_ref x \<notin> o_ref ` set old) \<longrightarrow>
      x \<in> set (?rest @ ?added)"
    using fold_canvasRemove_keeps by (auto split: option.splits)
  have "\<exists>objs2. canvas (updateObjectMeasurements pf st obj) = Some objs2 \<and>
        (\<forall>old m. measurementLabels st ident = Some old \<and> m \<in> set old \<longrightarrow> o_ref m \<notin> o_ref ` set objs2) \<and>
        (\<forall>new e. measurementLabels (updateObjectMeasurements pf st obj) ident = Some new \<and> e \<in> set new \<longrightarrow>
           e \<in> set objs2 \<and> nextRef st \<le> o_ref e \<and> o_parentId e = Some ident) \<and>
        (\<forall>x. x \<in> set objs \<and> (\<forall>old. measurementLabels st ident = Some old \<longrightarrow> o_ref x \<notin> o_ref ` set old) \<longrightarrow>
           x \<in> set objs2)"
    using f(1) gone present kept by (intro exI [of _ "?rest @ ?added"] conjI)
  then show ?thesis using frame regen indep by (intro conjI)
qed


lemma lineElements_refs:
  "map o_ref (lineElements pf sc r g ident) = [r, r + 1, r + 2, r + 3, r + 4, r + 5]"
  by (simp add: lineElements_def dimensionElements_refs)

lemma circleElements_refs: "map o_ref (circleElements pf sc r g ident) = [r, r + 1]"
  by (simp add: circleElements_def Let_def measurementObject_def)

lemma annotatedEditor_fields:
  "canvas annotatedEditor =
     Some ([exampleLine, exampleCircle] @
           lineElements plainPlatform (currentScale initialEditor) 2 (o_geometry exampleLine) ''a'' @
           circleElements plainPlatform (currentScale initialEditor) 8 (o_geometry exampleCircle) ''b'')"
  "measurementLabels annotatedEditor ''a'' =
     Some (lineElements plainPlatform (currentScale initialEditor) 2 (o_geometry exampleLine) ''a'')"
  "measurementLabels annotatedEditor ''b'' =
     Some (circleElements plainPlatform (currentScale initialEditor) 8 (o_geometry exampleCircle) ''b'')"
  "nextRef annotatedEditor = 10"
  "currentScale annotatedEditor = currentScale initialEditor"
  by (simp_all add: annotatedEditor_def addLineMeasurement_Some addCircleMeasurements_Some)

theorem updateObjectMeasurements_regenerates_witness:
  "canvas annotatedEditor \<noteq> None \<and>
   measurementLabels annotatedEditor ''a'' \<noteq> None \<and>
   measurementLabels annotatedEditor ''b'' \<noteq> None \<and>
   measurementLabels (updateObjectMeasurements plainPlatform annotatedEditor turnedLine) ''b'' =
     measurementLabels annotatedEditor ''b'' \<and>
   measurementLabels (updateObjectMeasurements plainPlatform annotatedEditor turnedLine) ''a'' =
     Some (lineElements plainPlatform (currentScale initialEditor) 10 (Line 0 0 0 10) ''a'') \<and>
   map o_geometry (take 1 (lineElements plainPlatform (currentScale initialEditor) 10 (Line 0 0 0 10) ''a'')) =
     [Line 20 0 20 10]"
proof -
  let ?le = "lineElements plainPlatform (currentScale initialEditor) 2 (o_geometry exampleLine) ''a''"
  let ?ce = "circleElements plainPlatform (currentScale initialEditor) 8 (o_geometry exampleCircle) ''b''"
  note a = annotatedEditor_fields
  have h2: "o_id turnedLine = Some ''a''"
    by (simp add: turnedLine_def exampleLine_def drawnObject_def)
  have h3: "''a'' \<noteq> []" by simp
  have h4: "distinct (map o_ref ([exampleLine, exampleCircle] @ ?le @ ?ce))"
    by (simp add: lineElements_refs circleElements_refs exampleLine_def exampleCircle_def drawnObject_def)
  have "\<forall>m\<in>set ?le. o_ref m \<in> set (map o_ref ?le)" by simp
  then have lt: "\<forall>m\<in>set ?le. o_ref m < 10"
    unfolding lineElements_refs by auto
  have h5: "\<forall>old. measurementLabels annotatedEditor ''a'' = Some old \<longrightarrow>
      (\<forall>m\<in>set old. o_ref m < nextRef annotatedEditor)"
    using lt by (simp add: a)
  have h6: "canvas initialEditor = Some []" by (simp add: initialEditor_def)
  have h7: "currentScale initialEditor = currentScale annotatedEditor" by (simp add: a)
  have t: "o_type turnedLine = ''line''" "o_geometry turnedLine = Line 0 0 0 10"
    by (simp_all add: turnedLine_def o_type_def)
  have g: "map o_geometry (take 1 (lineElements plainPlatform (currentScale initialEditor) 10 (Line 0 0 0 10) ''a'')) =
     [Line 20 0 20 10]"
    by (simp add: lineElements_def js_or_def dimensionElements_def Let_def measurementObject_def atan2_def)
  from updateObjectMeasurements_regenerates [OF a(1) h2 h3 h4 h5 h6 h7, of plainPlatform]
  have "measurementLabels (updateObjectMeasurements plainPlatform annotatedEditor turnedLine) ''b'' =
      measurementLabels annotatedEditor ''b''"
    and "measurementLabels (updateObjectMeasurements plainPlatform annotatedEditor turnedLine) ''a'' =
      annotationsFor plainPlatform (currentScale annotatedEditor) (nextRef annotatedEditor) turnedLine ''a''"
    by simp_all
  then show ?thesis using g by (simp add: a annotationsFor_def t)
qed



section \<open>Polygons have at least three vertices\<close>






















lemma polygonsComplete_canvas:
  "canvas s = canvas st \<Longrightarrow> polygonsComplete s = polygonsComplete st"
  by (simp add: polygonsComplete_def)

lemma polygonsComplete_added:
  assumes "polygonsComplete st" and "canvas st = Some objs" and "list_all threeVertices new"
    and "set objs1 \<subseteq> set objs"
  shows "polygonsComplete (st\<lparr>canvas := Some (objs1 @ new), nextRef := r\<rparr>)"
  using assms by (auto simp add: polygonsComplete_def list_all_iff)






























section \<open>Properties of drawing with the pointer\<close>

lemma handleMouseUp_rectangle_small:
  assumes "canvas st = Some objs" and "isDrawing st" and "drawingStart st = Some start"
    and "activeTool st = ToolRectangle"
    and "\<not> (5 < \<bar>fst p - fst start\<bar> \<and> 5 < \<bar>snd p - snd start\<bar>)"
  shows "canvas (handleMouseUp pf st now p) =
           Some (case tempShape st of None \<Rightarrow> objs | Some t \<Rightarrow> canvasRemove t objs)"
    and "measurementLabels (handleMouseUp pf st now p) = measurementLabels st"
  using assms by (auto simp add: handleMouseUp_def Let_def split: option.splits)

lemma handleMouseUp_circle_small:
  assumes "canvas st = Some objs" and "isDrawing st" and "drawingStart st = Some start"
    and "activeTool st = ToolCircle"
    and "\<not> 5 < sqrt ((fst p - fst start)\<^sup>2 + (snd p - snd start)\<^sup>2)"
  shows "canvas (handleMouseUp pf st now p) =
           Some (case tempShape st of None \<Rightarrow> objs | Some t \<Rightarrow> canvasRemove t objs)"
    and "measurementLabels (handleMouseUp pf st now p) = measurementLabels st"
  using assms by (auto simp add: handleMouseUp_def Let_def split: option.splits)

lemma rectElements_length [simp]: "length (rectElements pf sc r g ident) = 12"
  by (simp add: rectElements_def Let_def)

lemma circleElements_length [simp]: "length (circleElements pf sc r g ident) = 2"
  by (simp add: circleElements_def Let_def)

lemma handleMouseUp_rectangle_large:
  assumes "canvas st = Some objs" and "isDrawing st" and "drawingStart st = Some start"
    and "activeTool st = ToolRectangle"
    and "5 < \<bar>fst p - fst start\<bar> \<and> 5 < \<bar>snd p - snd start\<bar>"
  shows "\<exists>rect els.
      canvas (handleMouseUp pf st now p) =
        Some ((case tempShape st of None \<Rightarrow> objs | Some t \<Rightarrow> canvasRemove t objs) @ [rect] @ els) \<and>
      o_id rect = Some (''shape-'' @ digitsOf now) \<and>
      o_geometry rect =
        Rect (min (fst start) (fst p)) (min (snd start) (snd p)) \<bar>fst p - fst start\<bar> \<bar>snd p - snd start\<bar> 1 1 \<and>
      length els = 12 \<and>
      measurementLabels (handleMouseUp pf st now p) = (measurementLabels st)(''shape-'' @ digitsOf now \<mapsto> els)"
proof -
  define rest where "rest = (case tempShape st of None \<Rightarrow> objs | Some t \<Rightarrow> canvasRemove t objs)"
  define st1 where "st1 = (case tempShape st of None \<Rightarrow> st
      | Some t \<Rightarrow> st\<lparr>canvas := Some (canvasRemove t objs), tempShape := None\<rparr>)"
  define rect where "rect =
      drawnObject (nextRef st)
        (Rect (min (fst start) (fst p)) (min (snd start) (snd p)) \<bar>fst p - fst start\<bar> \<bar>snd p - snd start\<bar> 1 1)
        (Some (''shape-'' @ digitsOf now)) (Some (activeColor st)) (Some ''transparent'') (strokeWidth st) True"
  let ?st2 = "st1\<lparr>canvas := Some (rest @ [rect]), nextRef := nextRef st + 1\<rparr>"
  define els where "els = rectElements pf (currentScale st) (nextRef st + 1) (o_geometry rect) (''shape-'' @ digitsOf now)"
  have s1: "currentScale st1 = currentScale st" "measurementLabels st1 = measurementLabels st"
    by (simp_all add: st1_def split: option.splits)
  have c2: "canvas ?st2 = Some (rest @ [rect])" by simp
  note ar = addRectMeasurements_Some [OF c2, of pf rect "''shape-'' @ digitsOf now"]
  have up: "handleMouseUp pf st now p =
      (addRectMeasurements pf ?st2 rect (''shape-'' @ digitsOf now))
        \<lparr>isDrawing := False, drawingStart := None, currentMeasurement := []\<rparr>"
    using assms by (simp add: handleMouseUp_def Let_def st1_def rest_def rect_def)
  have "canvas (handleMouseUp pf st now p) = Some (rest @ [rect] @ els)"
    unfolding up ar els_def by (simp add: s1)
  moreover have "measurementLabels (handleMouseUp pf st now p) =
      (measurementLabels st)(''shape-'' @ digitsOf now \<mapsto> els)"
    unfolding up ar els_def by (simp add: s1)
  moreover have "o_id rect = Some (''shape-'' @ digitsOf now)"
    "o_geometry rect =
        Rect (min (fst start) (fst p)) (min (snd start) (snd p)) \<bar>fst p - fst start\<bar> \<bar>snd p - snd start\<bar> 1 1"
    by (simp_all add: rect_def drawnObject_def)
  moreover have "length els = 12" by (simp add: els_def)
  ultimately show ?thesis unfolding rest_def by blast
qed

lemma handleMouseUp_circle_large:
  assumes "canvas st = Some objs" and "isDrawing st" and "drawingStart st = Some start"
    and "activeTool st = ToolCircle"
    and "5 < sqrt ((fst p - fst start)\<^sup>2 + (snd p - snd start)\<^sup>2)"
  shows "\<exists>circle els.
      canvas (handleMouseUp pf st now p) =
        Some ((case tempShape st of None \<Rightarrow> objs | Some t \<Rightarrow> canvasRemove t objs) @ [circle] @ els) \<and>
      o_id circle = Some (''shape-'' @ digitsOf now) \<and>
      o_geometry circle =
        Circle (fst start - sqrt ((fst p - fst start)\<^sup>2 + (snd p - snd start)\<^sup>2))
          (snd start - sqrt ((fst p - fst start)\<^sup>2 + (snd p - snd start)\<^sup>2))
          (sqrt ((fst p - fst start)\<^sup>2 + (snd p - snd start)\<^sup>2)) 1 \<and>
      length els = 2 \<and>
      measurementLabels (handleMouseUp pf st now p) = (measurementLabels st)(''shape-'' @ digitsOf now \<mapsto> els)"
proof -
  define rest where "rest = (case tempShape st of None \<Rightarrow> objs | Some t \<Rightarrow> canvasRemove t objs)"
  define st1 where "st1 = (case tempShape st of None \<Rightarrow> st
      | Some t \<Rightarrow> st\<lparr>canvas := Some (canvasRemove t objs), tempShape := None\<rparr>)"
  define radiusPx where "radiusPx = sqrt ((fst p - fst start)\<^sup>2 + (snd p - snd start)\<^sup>2)"
  define circle where "circle =
      drawnObject (nextRef st) (Circle (fst start - radiusPx) (snd start - radiusPx) radiusPx 1)
        (Some (''shape-'' @ digitsOf now)) (Some (activeColor st)) (Some ''transparent'') (strokeWidth st) True"
  let ?st2 = "st1\<lparr>canvas := Some (rest @ [circle]), nextRef := nextRef st + 1\<rparr>"
  define els where "els = circleElements pf (currentScale st) (nextRef st + 1) (o_geometry circle) (''shape-'' @ digitsOf now)"
  have s1: "currentScale st1 = currentScale st" "measurementLabels st1 = measurementLabels st"
    by (simp_all add: st1_def split: option.splits)
  have c2: "canvas ?st2 = Some (rest @ [circle])" by simp
  note ac = addCircleMeasurements_Some [OF c2, of pf circle "''shape-'' @ digitsOf now"]
  have up: "handleMouseUp pf st now p =
      (addCircleMeasurements pf ?st2 circle (''shape-'' @ digitsOf now))
        \<lparr>isDrawing := False, drawingStart := None, currentMeasurement := []\<rparr>"
    using assms by (simp add: handleMouseUp_def Let_def st1_def rest_def circle_def radiusPx_def)
  have "canvas (handleMouseUp pf st now p) = Some (rest @ [circle] @ els)"
    unfolding up ac els_def by (simp add: s1)
  moreover have "measurementLabels (handleMouseUp pf st now p) =
      (measurementLabels st)(''shape-'' @ digitsOf now \<mapsto> els)"
    unfolding up ac els_def by (simp add: s1)
  moreover have "o_id circle = Some (''shape-'' @ digitsOf now)"
    "o_geometry circle = Circle (fst start - radiusPx) (snd start - radiusPx) radiusPx 1"
    by (simp_all add: circle_def drawnObject_def)
  moreover have "length els = 2" by (simp add: els_def)
  ultimately show ?thesis unfolding rest_def radiusPx_def by blast
qed


lemma previewShape_drawn:
  assumes "activeTool s = ToolRectangle \<or> activeTool s = ToolCircle"
  shows "\<exists>new. previewShape s start p = Some new \<and> o_ref new = nextRef s"
  using assms by (auto simp add: previewShape_def Let_def drawnObject_def)

lemma handleMouseMove_invariant:
  assumes "canvas s = Some (objs0 @ (case tempShape s of None \<Rightarrow> [] | Some t \<Rightarrow> [t]))"
    and "\<forall>t. tempShape s = Some t \<longrightarrow> o_ref t \<notin> o_ref ` set objs0"
    and "\<forall>x\<in>set objs0. o_ref x < nextRef s"
    and "isDrawing s" and "drawingStart s = Some start"
    and "activeTool s = ToolRectangle \<or> activeTool s = ToolCircle"
  shows "canvas (handleMouseMove pf s p) =
           Some (objs0 @ (case tempShape (handleMouseMove pf s p) of None \<Rightarrow> [] | Some t \<Rightarrow> [t])) \<and>
         (\<forall>t. tempShape (handleMouseMove pf s p) = Some t \<longrightarrow> o_ref t \<notin> o_ref ` set objs0) \<and>
         (\<forall>x\<in>set objs0. o_ref x < nextRef (handleMouseMove pf s p)) \<and>
         isDrawing (handleMouseMove pf s p) \<and> drawingStart (handleMouseMove pf s p) = Some start \<and>
         activeTool (handleMouseMove pf s p) = activeTool s \<and>
         measurementLabels (handleMouseMove pf s p) = measurementLabels s"
proof -
  obtain new where n: "previewShape s start p = Some new" "o_ref new = nextRef s"
    using previewShape_drawn [OF assms(6)] by blast
  have rest: "(case tempShape s of None \<Rightarrow> objs0 @ (case tempShape s of None \<Rightarrow> [] | Some t \<Rightarrow> [t])
      | Some t \<Rightarrow> canvasRemove t (objs0 @ (case tempShape s of None \<Rightarrow> [] | Some t \<Rightarrow> [t]))) = objs0"
    using assms(2) by (auto simp add: canvasRemove_last split: option.splits)
  have fresh: "o_ref new \<notin> o_ref ` set objs0" using assms(3) n(2) by auto
  have m: "handleMouseMove pf s p =
      s\<lparr>mousePos := p, currentMeasurement := liveMeasurement pf s start p,
         canvas := Some (objs0 @ [new]), nextRef := nextRef s + 1, tempShape := Some new\<rparr>"
    using assms(1,4,5) n(1) rest by (simp add: handleMouseMove_def Let_def)
  show ?thesis unfolding m using fresh assms(3,4,5) by auto
qed

lemma pointerMoves_invariant:
  assumes "canvas s = Some (objs0 @ (case tempShape s of None \<Rightarrow> [] | Some t \<Rightarrow> [t]))"
    and "\<forall>t. tempShape s = Some t \<longrightarrow> o_ref t \<notin> o_ref ` set objs0"
    and "\<forall>x\<in>set objs0. o_ref x < nextRef s"
    and "isDrawing s" and "drawingStart s = Some start"
    and "activeTool s = ToolRectangle \<or> activeTool s = ToolCircle"
  shows "canvas (pointerMoves pf s moves) =
           Some (objs0 @ (case tempShape (pointerMoves pf s moves) of None \<Rightarrow> [] | Some t \<Rightarrow> [t])) \<and>
         (\<forall>t. tempShape (pointerMoves pf s moves) = Some t \<longrightarrow> o_ref t \<notin> o_ref ` set objs0) \<and>
         (\<forall>x\<in>set objs0. o_ref x < nextRef (pointerMoves pf s moves)) \<and>
         isDrawing (pointerMoves pf s moves) \<and> drawingStart (pointerMoves pf s moves) = Some start \<and>
         activeTool (pointerMoves pf s moves) = activeTool s \<and>
         measurementLabels (pointerMoves pf s moves) = measurementLabels s"
  using assms
proof (induction moves arbitrary: s)
  case Nil
  then show ?case by (simp add: pointerMoves_def)
next
  case (Cons p moves)
  note step = handleMouseMove_invariant [OF Cons.prems, of pf p]
  have t: "activeTool (handleMouseMove pf s p) = ToolRectangle \<or> activeTool (handleMouseMove pf s p) = ToolCircle"
    using step Cons.prems(6) by simp
  have ih: "canvas (pointerMoves pf (handleMouseMove pf s p) moves) =
           Some (objs0 @ (case tempShape (pointerMoves pf (handleMouseMove pf s p) moves) of None \<Rightarrow> [] | Some t \<Rightarrow> [t])) \<and>
         (\<forall>t. tempShape (pointerMoves pf (handleMouseMove pf s p) moves) = Some t \<longrightarrow> o_ref t \<notin> o_ref ` set objs0) \<and>
         (\<forall>x\<in>set objs0. o_ref x < nextRef (pointerMoves pf (handleMouseMove pf s p) moves)) \<and>
         isDrawing (pointerMoves pf (handleMouseMove pf s p) moves) \<and>
         drawingStart (pointerMoves pf (handleMouseMove pf s p) moves) = Some start \<and>
         activeTool (pointerMoves pf (handleMouseMove pf s p) moves) = activeTool (handleMouseMove pf s p) \<and>
         measurementLabels (pointerMoves pf (handleMouseMove pf s p) moves) = measurementLabels (handleMouseMove pf s p)"
    using step t by (intro Cons.IH) simp_all
  have u: "pointerMoves pf s (p # moves) = pointerMoves pf (handleMouseMove pf s p) moves"
    by (simp add: pointerMoves_def)
  show ?case unfolding u using ih step by simp
qed

lemma gesture_rest:
  assumes "canvas st0 = Some objs0" and "tempShape st0 = None"
    and "\<forall>x\<in>set objs0. o_ref x < nextRef st0"
    and "activeTool st0 = ToolRectangle \<or> activeTool st0 = ToolCircle"
    and "st = pointerMoves pf (handleMouseDown st0 start) moves"
    and "canvas st = Some objs"
  shows "(case tempShape st of None \<Rightarrow> objs | Some t \<Rightarrow> canvasRemove t objs) = objs0 \<and>
         measurementLabels st = measurementLabels st0 \<and> activeTool st = activeTool st0 \<and>
         isDrawing st \<and> drawingStart st = Some start"
proof -
  let ?d = "handleMouseDown st0 start"
  have d: "?d = st0\<lparr>isDrawing := True, drawingStart := Some start\<rparr>"
    using assms(1,4) by (auto simp add: handleMouseDown_def)
  have inv: "canvas st = Some (objs0 @ (case tempShape st of None \<Rightarrow> [] | Some t \<Rightarrow> [t])) \<and>
         (\<forall>t. tempShape st = Some t \<longrightarrow> o_ref t \<notin> o_ref ` set objs0) \<and>
         (\<forall>x\<in>set objs0. o_ref x < nextRef st) \<and>
         isDrawing st \<and> drawingStart st = Some start \<and>
         activeTool st = activeTool ?d \<and>
         measurementLabels st = measurementLabels ?d"
    unfolding assms(5)
    by (rule pointerMoves_invariant) (use assms(1,2,3,4) in \<open>simp_all add: d\<close>)
  have "(case tempShape st of None \<Rightarrow> objs | Some t \<Rightarrow> canvasRemove t objs) = objs0"
    using inv assms(6) by (auto simp add: canvasRemove_last split: option.splits)
  then show ?thesis using inv by (simp add: d)
qed


text \<open>
  C10. On pointer-up while drawing (a canvas, \<^verbatim>\<open>isDrawing\<close>, a start point), with the
  rectangle tool: when both sides exceed 5 pixels the canvas is the canvas without the
  preview, then the new rectangle with the id made from the clock, then its twelve
  annotation primitives, and these are stored under that id; otherwise the canvas is the
  canvas without the preview and the annotation map is unchanged. The circle tool does
  the same with the radius and two primitives. When the state at pointer-up comes from a
  pointer-down in a state with no preview pending, followed by any pointer moves, the
  canvas without the preview is the canvas as it was before the drag: a smaller drag
  leaves the canvas and the annotation map as they were.
\<close>

theorem pointer_up_commits_only_large_shapes:
  assumes "canvas st = Some objs" and "isDrawing st" and "drawingStart st = Some start"
  shows
    "(activeTool st = ToolRectangle \<and> 5 < \<bar>fst p - fst start\<bar> \<and> 5 < \<bar>snd p - snd start\<bar> \<longrightarrow>
        (\<exists>rect els.
           canvas (handleMouseUp pf st now p) = Some (withoutPreview st objs @ [rect] @ els) \<and>
           o_id rect = Some (''shape-'' @ digitsOf now) \<and>
           o_geometry rect =
             Rect (min (fst start) (fst p)) (min (snd start) (snd p))
               \<bar>fst p - fst start\<bar> \<bar>snd p - snd start\<bar> 1 1 \<and>
           length els = 12 \<and>
           measurementLabels (handleMouseUp pf st now p) =
             (measurementLabels st)(''shape-'' @ digitsOf now \<mapsto> els))) \<and>
     (activeTool st = ToolRectangle \<and> \<not> (5 < \<bar>fst p - fst start\<bar> \<and> 5 < \<bar>snd p - snd start\<bar>) \<longrightarrow>
        canvas (handleMouseUp pf st now p) = Some (withoutPreview st objs) \<and>
        measurementLabels (handleMouseUp pf st now p) = measurementLabels st) \<and>
     (activeTool st = ToolCircle \<and> 5 < sqrt ((fst p - fst start)\<^sup>2 + (snd p - snd start)\<^sup>2) \<longrightarrow>
        (\<exists>circle els.
           canvas (handleMouseUp pf st now p) = Some (withoutPreview st objs @ [circle] @ els) \<and>
           o_id circle = Some (''shape-'' @ digitsOf now) \<and>
           o_geometry circle =
             Circle (fst start - sqrt ((fst p - fst start)\<^sup>2 + (snd p - snd start)\<^sup>2))
               (snd start - sqrt ((fst p - fst start)\<^sup>2 + (snd p - snd start)\<^sup>2))
               (sqrt ((fst p - fst start)\<^sup>2 + (snd p - snd start)\<^sup>2)) 1 \<and>
           length els = 2 \<and>
           measurementLabels (handleMouseUp pf st now p) =
             (measurementLabels st)(''shape-'' @ digitsOf now \<mapsto> els))) \<and>
     (activeTool st = ToolCircle \<and> \<not> 5 < sqrt ((fst p - fst start)\<^sup>2 + (snd p - snd start)\<^sup>2) \<longrightarrow>
        canvas (handleMouseUp pf st now p) = Some (withoutPreview st objs) \<and>
        measurementLabels (handleMouseUp pf st now p) = measurementLabels st) \<and>
     (\<forall>idle objs0 moves.
        canvas idle = Some objs0 \<and> tempShape idle = None \<and> (\<forall>x\<in>set objs0. o_ref x < nextRef idle) \<and>
        (activeTool idle = ToolRectangle \<or> activeTool idle = ToolCircle) \<and>
        st = pointerMoves pf (handleMouseDown idle start) moves \<longrightarrow>
          withoutPreview st objs = objs0 \<and> measurementLabels st = measurementLabels idle \<and>
          activeTool st = activeTool idle)"
proof -
  have a: "activeTool st = ToolRectangle \<and> 5 < \<bar>fst p - fst start\<bar> \<and> 5 < \<bar>snd p - snd start\<bar> \<longrightarrow>
        (\<exists>rect els.
           canvas (handleMouseUp pf st now p) = Some (withoutPreview st objs @ [rect] @ els) \<and>
           o_id rect = Some (''shape-'' @ digitsOf now) \<and>
           o_geometry rect =
             Rect (min (fst start) (fst p)) (min (snd start) (snd p))
               \<bar>fst p - fst start\<bar> \<bar>snd p - snd start\<bar> 1 1 \<and>
           length els = 12 \<and>
           measurementLabels (handleMouseUp pf st now p) =
             (measurementLabels st)(''shape-'' @ digitsOf now \<mapsto> els))"
    unfolding withoutPreview_def
    using handleMouseUp_rectangle_large [OF assms, of p pf now] by blast
  have b: "activeTool st = ToolRectangle \<and> \<not> (5 < \<bar>fst p - fst start\<bar> \<and> 5 < \<bar>snd p - snd start\<bar>) \<longrightarrow>
        canvas (handleMouseUp pf st now p) = Some (withoutPreview st objs) \<and>
        measurementLabels (handleMouseUp pf st now p) = measurementLabels st"
    unfolding withoutPreview_def
    using handleMouseUp_rectangle_small [OF assms, of p pf now] by blast
  have c: "activeTool st = ToolCircle \<and> 5 < sqrt ((fst p - fst start)\<^sup>2 + (snd p - snd start)\<^sup>2) \<longrightarrow>
        (\<exists>circle els.
           canvas (handleMouseUp pf st now p) = Some (withoutPreview st objs @ [circle] @ els) \<and>
           o_id circle = Some (''shape-'' @ digitsOf now) \<and>
           o_geometry circle =
             Circle (fst start - sqrt ((fst p - fst start)\<^sup>2 + (snd p - snd start)\<^sup>2))
               (snd start - sqrt ((fst p - fst start)\<^sup>2 + (snd p - snd start)\<^sup>2))
               (sqrt ((fst p - fst start)\<^sup>2 + (snd p - snd start)\<^sup>2)) 1 \<and>
           length els = 2 \<and>
           measurementLabels (handleMouseUp pf st now p) =
             (measurementLabels st)(''shape-'' @ digitsOf now \<mapsto> els))"
    unfolding withoutPreview_def
    using handleMouseUp_circle_large [OF assms, of p pf now] by blast
  have d: "activeTool st = ToolCircle \<and> \<not> 5 < sqrt ((fst p - fst start)\<^sup>2 + (snd p - snd start)\<^sup>2) \<longrightarrow>
        canvas (handleMouseUp pf st now p) = Some (withoutPreview st objs) \<and>
        measurementLabels (handleMouseUp pf st now p) = measurementLabels st"
    unfolding withoutPreview_def
    using handleMouseUp_circle_small [OF assms, of p pf now] by blast
  have e: "\<forall>idle objs0 moves.
        canvas idle = Some objs0 \<and> tempShape idle = None \<and> (\<forall>x\<in>set objs0. o_ref x < nextRef idle) \<and>
        (activeTool idle = ToolRectangle \<or> activeTool idle = ToolCircle) \<and>
        st = pointerMoves pf (handleMouseDown idle start) moves \<longrightarrow>
          withoutPreview st objs = objs0 \<and> measurementLabels st = measurementLabels idle \<and>
          activeTool st = activeTool idle"
  proof (intro allI impI)
    fix idle objs0 moves
    assume h: "canvas idle = Some objs0 \<and> tempShape idle = None \<and> (\<forall>x\<in>set objs0. o_ref x < nextRef idle) \<and>
        (activeTool idle = ToolRectangle \<or> activeTool idle = ToolCircle) \<and>
        st = pointerMoves pf (handleMouseDown idle start) moves"
    then have h1: "canvas idle = Some objs0" and h2: "tempShape idle = None"
      and h3: "\<forall>x\<in>set objs0. o_ref x < nextRef idle"
      and h4: "activeTool idle = ToolRectangle \<or> activeTool idle = ToolCircle"
      and h5: "st = pointerMoves pf (handleMouseDown idle start) moves"
      by simp_all
    show "withoutPreview st objs = objs0 \<and> measurementLabels st = measurementLabels idle \<and>
          activeTool st = activeTool idle"
      unfolding withoutPreview_def
      using gesture_rest [OF h1 h2 h3 h4 h5 assms(1)] by simp
  qed
  show ?thesis using a b c d e by (intro conjI)
qed

theorem pointer_up_commits_only_large_shapes_witness:
  "canvas (handleMouseUp plainPlatform
      (pointerMoves plainPlatform (handleMouseDown (initialEditor\<lparr>activeTool := ToolRectangle\<rparr>) (0, 0)) [(2, 2), (30, 3)])
      7 (30, 3)) = Some [] \<and>
   measurementLabels (handleMouseUp plainPlatform
      (pointerMoves plainPlatform (handleMouseDown (initialEditor\<lparr>activeTool := ToolRectangle\<rparr>) (0, 0)) [(2, 2), (30, 3)])
      7 (30, 3)) ''shape-7'' = None \<and>
   map_option length (canvas (handleMouseUp plainPlatform
      (pointerMoves plainPlatform (handleMouseDown (initialEditor\<lparr>activeTool := ToolRectangle\<rparr>) (0, 0)) [(2, 2), (30, 3)])
      7 (30, 10))) = Some 13 \<and>
   map_option length (measurementLabels (handleMouseUp plainPlatform
      (pointerMoves plainPlatform (handleMouseDown (initialEditor\<lparr>activeTool := ToolRectangle\<rparr>) (0, 0)) [(2, 2), (30, 3)])
      7 (30, 10)) ''shape-7'') = Some 12"
proof -
  let ?idle = "initialEditor\<lparr>activeTool := ToolRectangle\<rparr>"
  let ?down = "handleMouseDown ?idle (0, 0)"
  let ?cur = "pointerMoves plainPlatform ?down [(2, 2), (30, 3)]"
  have i: "canvas ?idle = Some [] \<and> tempShape ?idle = None \<and> (\<forall>x\<in>set []. o_ref x < nextRef ?idle) \<and>
      (activeTool ?idle = ToolRectangle \<or> activeTool ?idle = ToolCircle) \<and> ?cur = ?cur"
    by (simp add: initialEditor_def)
  have l0: "measurementLabels ?idle = (\<lambda>k. None)" and t0: "activeTool ?idle = ToolRectangle"
    by (simp_all add: initialEditor_def)
  have p1: "canvas ?down = Some ([] @ (case tempShape ?down of None \<Rightarrow> [] | Some t \<Rightarrow> [t]))"
    and p2: "\<forall>t. tempShape ?down = Some t \<longrightarrow> o_ref t \<notin> o_ref ` set []"
    and p3: "\<forall>x\<in>set []. o_ref x < nextRef ?down"
    and p4: "isDrawing ?down" and p5: "drawingStart ?down = Some (0, 0)"
    and p6: "activeTool ?down = ToolRectangle \<or> activeTool ?down = ToolCircle"
    by (simp_all add: handleMouseDown_def initialEditor_def)
  note inv = pointerMoves_invariant [OF p1 p2 p3 p4 p5 p6, of plainPlatform "[(2, 2), (30, 3)]"]
  define objs where "objs = [] @ (case tempShape ?cur of None \<Rightarrow> [] | Some t \<Rightarrow> [t])"
  have c: "canvas ?cur = Some objs" using inv unfolding objs_def by (elim conjE)
  have dr: "isDrawing ?cur" using inv by (elim conjE)
  have ds: "drawingStart ?cur = Some (0, 0)" using inv by (elim conjE)
  have d7: "digitsOf 7 = ''7''" by (simp add: digitsOf.simps digitChar_def)
  note small = pointer_up_commits_only_large_shapes [OF c dr ds, of "(30, 3)" plainPlatform 7]
  note big = pointer_up_commits_only_large_shapes [OF c dr ds, of "(30, 10)" plainPlatform 7]
  have ge: "\<forall>idle objs0 moves.
        canvas idle = Some objs0 \<and> tempShape idle = None \<and> (\<forall>x\<in>set objs0. o_ref x < nextRef idle) \<and>
        (activeTool idle = ToolRectangle \<or> activeTool idle = ToolCircle) \<and>
        ?cur = pointerMoves plainPlatform (handleMouseDown idle (0, 0)) moves \<longrightarrow>
          withoutPreview ?cur objs = objs0 \<and> measurementLabels ?cur = measurementLabels idle \<and>
          activeTool ?cur = activeTool idle"
    using small by (elim conjE)
  have g: "withoutPreview ?cur objs = [] \<and> measurementLabels ?cur = measurementLabels ?idle \<and>
      activeTool ?cur = activeTool ?idle"
    by (rule ge [rule_format, OF i])
  then have g1: "withoutPreview ?cur objs = []" and g2: "measurementLabels ?cur = (\<lambda>k. None)"
    and g3: "activeTool ?cur = ToolRectangle"
    by (simp_all add: l0 t0)
  have sm: "activeTool ?cur = ToolRectangle \<and>
      \<not> (5 < \<bar>fst (30 :: real, 3 :: real) - fst (0 :: real, 0 :: real)\<bar> \<and>
         5 < \<bar>snd (30 :: real, 3 :: real) - snd (0 :: real, 0 :: real)\<bar>) \<longrightarrow>
        canvas (handleMouseUp plainPlatform ?cur 7 (30, 3)) = Some (withoutPreview ?cur objs) \<and>
        measurementLabels (handleMouseUp plainPlatform ?cur 7 (30, 3)) = measurementLabels ?cur"
    using small by (elim conjE)
  have s1: "canvas (handleMouseUp plainPlatform ?cur 7 (30, 3)) = Some []"
    and s2: "measurementLabels (handleMouseUp plainPlatform ?cur 7 (30, 3)) ''shape-7'' = None"
    using sm g1 g2 g3 by simp_all
  have bg: "activeTool ?cur = ToolRectangle \<and>
      5 < \<bar>fst (30 :: real, 10 :: real) - fst (0 :: real, 0 :: real)\<bar> \<and>
      5 < \<bar>snd (30 :: real, 10 :: real) - snd (0 :: real, 0 :: real)\<bar> \<longrightarrow>
        (\<exists>rect els.
           canvas (handleMouseUp plainPlatform ?cur 7 (30, 10)) = Some (withoutPreview ?cur objs @ [rect] @ els) \<and>
           o_id rect = Some (''shape-'' @ digitsOf 7) \<and>
           o_geometry rect =
             Rect (min (fst (0 :: real, 0 :: real)) (fst (30 :: real, 10 :: real)))
               (min (snd (0 :: real, 0 :: real)) (snd (30 :: real, 10 :: real)))
               \<bar>fst (30 :: real, 10 :: real) - fst (0 :: real, 0 :: real)\<bar>
               \<bar>snd (30 :: real, 10 :: real) - snd (0 :: real, 0 :: real)\<bar> 1 1 \<and>
           length els = 12 \<and>
           measurementLabels (handleMouseUp plainPlatform ?cur 7 (30, 10)) =
             (measurementLabels ?cur)(''shape-'' @ digitsOf 7 \<mapsto> els))"
    using big by (elim conjE)
  have pre: "activeTool ?cur = ToolRectangle \<and>
      5 < \<bar>fst (30 :: real, 10 :: real) - fst (0 :: real, 0 :: real)\<bar> \<and>
      5 < \<bar>snd (30 :: real, 10 :: real) - snd (0 :: real, 0 :: real)\<bar>"
    using g3 by simp
  from bg [rule_format, OF pre] obtain rect els where
    b1: "canvas (handleMouseUp plainPlatform ?cur 7 (30, 10)) = Some (withoutPreview ?cur objs @ [rect] @ els)"
    and b2: "length els = 12"
    and b3: "measurementLabels (handleMouseUp plainPlatform ?cur 7 (30, 10)) =
             (measurementLabels ?cur)(''shape-'' @ digitsOf 7 \<mapsto> els)"
    by blast
  have l1: "map_option length (canvas (handleMouseUp plainPlatform ?cur 7 (30, 10))) = Some 13"
    unfolding b1 g1 using b2 by simp
  have l2: "map_option length (measurementLabels (handleMouseUp plainPlatform ?cur 7 (30, 10)) ''shape-7'') = Some 12"
    unfolding b3 d7 using b2 by simp
  show ?thesis using s1 s2 l1 l2 by (intro conjI)
qed

section \<open>Properties of a movement tick\<close>

lemma js_or_zero [simp]: "js_or x 0 = x"
  by (simp add: js_or_def)

lemma snapStep_position:
  "fst (snapStep snapToGrid gs scale target) =
     (if gs_snapToGrid gs
      then snapToGrid (c_left target) (c_top target) (gs_size gs) (scale * BASE_PIXELS_PER_METER)
      else (c_left target, c_top target))"
  by (simp add: snapStep_def Let_def)

lemma snapStep_target:
  "snd (snapStep snapToGrid gs scale target) =
     (if gs_snapToGrid gs
      then target\<lparr>c_left := fst (fst (snapStep snapToGrid gs scale target)),
                  c_top := snd (fst (snapStep snapToGrid gs scale target))\<rparr>
      else target)"
  by (simp add: snapStep_def Let_def)

lemma snapStep_placed:
  "c_left (snd (snapStep snapToGrid gs scale target)) = fst (fst (snapStep snapToGrid gs scale target)) \<and>
   c_top (snd (snapStep snapToGrid gs scale target)) = snd (fst (snapStep snapToGrid gs scale target))"
  by (simp add: snapStep_def Let_def)

lemma snapStep_same:
  "c_ref (snd (snapStep snapToGrid gs scale target)) = c_ref target"
  "currentBounds pos (snd (snapStep snapToGrid gs scale target)) = currentBounds pos target"
  "otherObjects (snd (snapStep snapToGrid gs scale target)) objs = otherObjects target objs"
  by (simp_all add: snapStep_def Let_def currentBounds_def otherObjects_def)

lemma fold_applyGuide_left:
  "c_left (fold (applyGuide thr pos) guides t) =
     (if filter (\<lambda>g. guideType g = Vertical \<and> \<bar>fst pos - position g\<bar> < thr) guides = [] then c_left t
      else position (last (filter (\<lambda>g. guideType g = Vertical \<and> \<bar>fst pos - position g\<bar> < thr) guides)))"
proof (induction guides arbitrary: t)
  case Nil
  then show ?case by simp
next
  case (Cons g guides)
  have h: "c_left (applyGuide thr pos g t) =
      (if guideType g = Vertical \<and> \<bar>fst pos - position g\<bar> < thr then position g else c_left t)"
    by (simp add: applyGuide_def)
  show ?case using Cons.IH [of "applyGuide thr pos g t"] h by simp
qed

lemma fold_applyGuide_top:
  "c_top (fold (applyGuide thr pos) guides t) =
     (if filter (\<lambda>g. guideType g \<noteq> Vertical \<and> \<bar>snd pos - position g\<bar> < thr) guides = [] then c_top t
      else position (last (filter (\<lambda>g. guideType g \<noteq> Vertical \<and> \<bar>snd pos - position g\<bar> < thr) guides)))"
proof (induction guides arbitrary: t)
  case Nil
  then show ?case by simp
next
  case (Cons g guides)
  have h: "c_top (applyGuide thr pos g t) =
      (if guideType g \<noteq> Vertical \<and> \<bar>snd pos - position g\<bar> < thr then position g else c_top t)"
    by (simp add: applyGuide_def)
  show ?case using Cons.IH [of "applyGuide thr pos g t"] h by simp
qed

lemma objectMoving_autoAlign:
  assumes "gs_autoAlign (cs_gridSettings st)"
  shows "cs_alignmentGuides (snd (objectMoving snapToGrid findAlignmentGuides rnd st target)) =
      findAlignmentGuides
        (currentBounds (fst (snapStep snapToGrid (cs_gridSettings st) (cs_scale st) target)) target)
        (otherBounds rnd (otherObjects target (cs_objects st)))
        (gs_alignThreshold (cs_gridSettings st))"
    and "fst (objectMoving snapToGrid findAlignmentGuides rnd st target) =
      fold (applyGuide (gs_alignThreshold (cs_gridSettings st))
              (fst (snapStep snapToGrid (cs_gridSettings st) (cs_scale st) target)))
        (cs_alignmentGuides (snd (objectMoving snapToGrid findAlignmentGuides rnd st target)))
        (snd (snapStep snapToGrid (cs_gridSettings st) (cs_scale st) target))"
  using assms
  by (simp_all add: objectMoving_def Let_def case_prod_beta snapStep_same)

lemma objectMoving_independent:
  assumes "gs_autoAlign (cs_gridSettings st)"
  shows "fst (objectMoving snapToGrid findAlignmentGuides rnd (st\<lparr>cs_alignmentGuides := previous\<rparr>) target) =
         fst (objectMoving snapToGrid findAlignmentGuides rnd st target) \<and>
         cs_alignmentGuides (snd (objectMoving snapToGrid findAlignmentGuides rnd (st\<lparr>cs_alignmentGuides := previous\<rparr>) target)) =
         cs_alignmentGuides (snd (objectMoving snapToGrid findAlignmentGuides rnd st target))"
  using assms by (simp add: objectMoving_def Let_def case_prod_beta)

lemma objectModified_clears:
  "cs_alignmentGuides (objectModified cpa cdist calculateDimensions st target) = []"
  by (simp add: objectModified_def Let_def)


text \<open>
  C9. One \<^verbatim>\<open>object:moving\<close> tick. The position \<open>pos\<close> is the snapped position when snapping
  is on and the target's position otherwise. With auto-align on: the guides are what
  \<^verbatim>\<open>findAlignmentGuides\<close> returns for the target's box at \<open>pos\<close>, so detection sees the snapped
  position; the moved target's left is the position of the last vertical guide nearer
  to \<open>pos\<close> than the threshold, or that of \<open>pos\<close> when there is none, and likewise its top
  with the other guides, so the correction follows detection and starts from the
  snapped position; and the moved target and the guides are the same whatever guides
  the state held before the tick. With auto-align off the target is at \<open>pos\<close>. After
  \<^verbatim>\<open>object:modified\<close>, which ends the movement, the guides are empty.
\<close>

theorem shape_movement_tick:
  "\<exists>pos guides moved.
     pos =
       (if gs_snapToGrid (cs_gridSettings st)
        then snapToGrid (c_left target) (c_top target) (gs_size (cs_gridSettings st))
               (cs_scale st * BASE_PIXELS_PER_METER)
        else (c_left target, c_top target)) \<and>
     moved = fst (objectMoving snapToGrid findAlignmentGuides rnd st target) \<and>
     guides = cs_alignmentGuides (snd (objectMoving snapToGrid findAlignmentGuides rnd st target)) \<and>
     (gs_autoAlign (cs_gridSettings st) \<longrightarrow>
        guides =
          findAlignmentGuides (currentBounds pos target)
            (otherBounds rnd (otherObjects target (cs_objects st))) (gs_alignThreshold (cs_gridSettings st)) \<and>
        c_left moved =
          (if filter (\<lambda>g. guideType g = Vertical \<and> \<bar>fst pos - position g\<bar> < gs_alignThreshold (cs_gridSettings st))
                guides = []
           then fst pos
           else position (last (filter (\<lambda>g. guideType g = Vertical \<and>
                   \<bar>fst pos - position g\<bar> < gs_alignThreshold (cs_gridSettings st)) guides))) \<and>
        c_top moved =
          (if filter (\<lambda>g. guideType g \<noteq> Vertical \<and> \<bar>snd pos - position g\<bar> < gs_alignThreshold (cs_gridSettings st))
                guides = []
           then snd pos
           else position (last (filter (\<lambda>g. guideType g \<noteq> Vertical \<and>
                   \<bar>snd pos - position g\<bar> < gs_alignThreshold (cs_gridSettings st)) guides))) \<and>
        (\<forall>previous.
           fst (objectMoving snapToGrid findAlignmentGuides rnd (st\<lparr>cs_alignmentGuides := previous\<rparr>) target) = moved \<and>
           cs_alignmentGuides
             (snd (objectMoving snapToGrid findAlignmentGuides rnd (st\<lparr>cs_alignmentGuides := previous\<rparr>) target)) =
             guides)) \<and>
     (\<not> gs_autoAlign (cs_gridSettings st) \<longrightarrow> c_left moved = fst pos \<and> c_top moved = snd pos) \<and>
     cs_alignmentGuides (objectModified cpa cdist cdims st moved) = []"
  (is "\<exists>pos guides moved. ?P pos guides moved")
proof -
  let ?gs = "cs_gridSettings st"
  let ?thr = "gs_alignThreshold ?gs"
  define pos where "pos = fst (snapStep snapToGrid ?gs (cs_scale st) target)"
  define moved where "moved = fst (objectMoving snapToGrid findAlignmentGuides rnd st target)"
  define guides where "guides = cs_alignmentGuides (snd (objectMoving snapToGrid findAlignmentGuides rnd st target))"
  have p: "pos =
       (if gs_snapToGrid ?gs
        then snapToGrid (c_left target) (c_top target) (gs_size ?gs) (cs_scale st * BASE_PIXELS_PER_METER)
        else (c_left target, c_top target))"
    by (simp add: pos_def snapStep_position)
  have placed: "c_left (snd (snapStep snapToGrid ?gs (cs_scale st) target)) = fst pos"
      "c_top (snd (snapStep snapToGrid ?gs (cs_scale st) target)) = snd pos"
    using snapStep_placed [of snapToGrid ?gs "cs_scale st" target] by (simp_all add: pos_def)
  have on: "gs_autoAlign ?gs \<longrightarrow>
        guides = findAlignmentGuides (currentBounds pos target)
            (otherBounds rnd (otherObjects target (cs_objects st))) ?thr \<and>
        c_left moved =
          (if filter (\<lambda>g. guideType g = Vertical \<and> \<bar>fst pos - position g\<bar> < ?thr) guides = []
           then fst pos
           else position (last (filter (\<lambda>g. guideType g = Vertical \<and> \<bar>fst pos - position g\<bar> < ?thr) guides))) \<and>
        c_top moved =
          (if filter (\<lambda>g. guideType g \<noteq> Vertical \<and> \<bar>snd pos - position g\<bar> < ?thr) guides = []
           then snd pos
           else position (last (filter (\<lambda>g. guideType g \<noteq> Vertical \<and> \<bar>snd pos - position g\<bar> < ?thr) guides))) \<and>
        (\<forall>previous.
           fst (objectMoving snapToGrid findAlignmentGuides rnd (st\<lparr>cs_alignmentGuides := previous\<rparr>) target) = moved \<and>
           cs_alignmentGuides
             (snd (objectMoving snapToGrid findAlignmentGuides rnd (st\<lparr>cs_alignmentGuides := previous\<rparr>) target)) =
             guides)"
  proof
    assume a: "gs_autoAlign ?gs"
    note m = objectMoving_autoAlign [OF a, of snapToGrid findAlignmentGuides rnd target]
    have g: "guides = findAlignmentGuides (currentBounds pos target)
            (otherBounds rnd (otherObjects target (cs_objects st))) ?thr"
      unfolding guides_def pos_def by (rule m(1))
    have f: "moved = fold (applyGuide ?thr pos) guides (snd (snapStep snapToGrid ?gs (cs_scale st) target))"
      unfolding moved_def guides_def pos_def by (rule m(2))
    have l: "c_left moved =
          (if filter (\<lambda>g. guideType g = Vertical \<and> \<bar>fst pos - position g\<bar> < ?thr) guides = []
           then fst pos
           else position (last (filter (\<lambda>g. guideType g = Vertical \<and> \<bar>fst pos - position g\<bar> < ?thr) guides)))"
      unfolding f fold_applyGuide_left placed ..
    have t: "c_top moved =
          (if filter (\<lambda>g. guideType g \<noteq> Vertical \<and> \<bar>snd pos - position g\<bar> < ?thr) guides = []
           then snd pos
           else position (last (filter (\<lambda>g. guideType g \<noteq> Vertical \<and> \<bar>snd pos - position g\<bar> < ?thr) guides)))"
      unfolding f fold_applyGuide_top placed ..
    have i: "\<forall>previous.
           fst (objectMoving snapToGrid findAlignmentGuides rnd (st\<lparr>cs_alignmentGuides := previous\<rparr>) target) = moved \<and>
           cs_alignmentGuides
             (snd (objectMoving snapToGrid findAlignmentGuides rnd (st\<lparr>cs_alignmentGuides := previous\<rparr>) target)) =
             guides"
      unfolding moved_def guides_def using objectMoving_independent [OF a] by blast
    show "guides = findAlignmentGuides (currentBounds pos target)
            (otherBounds rnd (otherObjects target (cs_objects st))) ?thr \<and>
        c_left moved =
          (if filter (\<lambda>g. guideType g = Vertical \<and> \<bar>fst pos - position g\<bar> < ?thr) guides = []
           then fst pos
           else position (last (filter (\<lambda>g. guideType g = Vertical \<and> \<bar>fst pos - position g\<bar> < ?thr) guides))) \<and>
        c_top moved =
          (if filter (\<lambda>g. guideType g \<noteq> Vertical \<and> \<bar>snd pos - position g\<bar> < ?thr) guides = []
           then snd pos
           else position (last (filter (\<lambda>g. guideType g \<noteq> Vertical \<and> \<bar>snd pos - position g\<bar> < ?thr) guides))) \<and>
        (\<forall>previous.
           fst (objectMoving snapToGrid findAlignmentGuides rnd (st\<lparr>cs_alignmentGuides := previous\<rparr>) target) = moved \<and>
           cs_alignmentGuides
             (snd (objectMoving snapToGrid findAlignmentGuides rnd (st\<lparr>cs_alignmentGuides := previous\<rparr>) target)) =
             guides)"
      using g l t i by (intro conjI)
  qed
  have off: "\<not> gs_autoAlign ?gs \<longrightarrow> c_left moved = fst pos \<and> c_top moved = snd pos"
  proof
    assume a: "\<not> gs_autoAlign ?gs"
    have "moved = snd (snapStep snapToGrid ?gs (cs_scale st) target)"
      using a by (simp add: moved_def objectMoving_def Let_def case_prod_beta)
    then show "c_left moved = fst pos \<and> c_top moved = snd pos" using placed by simp
  qed
  have cl: "cs_alignmentGuides (objectModified cpa cdist cdims st moved) = []"
    by (rule objectModified_clears)
  have "?P pos guides moved"
    using p moved_def guides_def on off cl by (intro conjI)
  then show ?thesis by (intro exI)
qed


theorem shape_movement_tick_witness:
  "gs_autoAlign (cs_gridSettings movingCanvas) \<and>
   cs_alignmentGuides (snd (objectMoving exampleSnap exampleLeftGuides (\<lambda>i. ''r'') movingCanvas movingTarget)) =
     [\<lparr>guideType = Vertical, position = 103, relatedId = ''o1''\<rparr>] \<and>
   c_left (fst (objectMoving exampleSnap exampleLeftGuides (\<lambda>i. ''r'') movingCanvas movingTarget)) = 103 \<and>
   c_top (fst (objectMoving exampleSnap exampleLeftGuides (\<lambda>i. ''r'') movingCanvas movingTarget)) = 200"
proof -
  let ?thr = "gs_alignThreshold (cs_gridSettings movingCanvas)"
  have a: "gs_autoAlign (cs_gridSettings movingCanvas)" by (simp add: movingCanvas_def)
  have th: "?thr = 5" by (simp add: movingCanvas_def)
  from shape_movement_tick [of movingCanvas exampleSnap movingTarget exampleLeftGuides "\<lambda>i. ''r''"]
  obtain pos guides moved where
    p: "pos =
       (if gs_snapToGrid (cs_gridSettings movingCanvas)
        then exampleSnap (c_left movingTarget) (c_top movingTarget) (gs_size (cs_gridSettings movingCanvas))
               (cs_scale movingCanvas * BASE_PIXELS_PER_METER)
        else (c_left movingTarget, c_top movingTarget))"
    and m: "moved = fst (objectMoving exampleSnap exampleLeftGuides (\<lambda>i. ''r'') movingCanvas movingTarget)"
    and g: "guides = cs_alignmentGuides (snd (objectMoving exampleSnap exampleLeftGuides (\<lambda>i. ''r'') movingCanvas movingTarget))"
    and on: "gs_autoAlign (cs_gridSettings movingCanvas) \<longrightarrow>
        guides =
          exampleLeftGuides (currentBounds pos movingTarget)
            (otherBounds (\<lambda>i. ''r'') (otherObjects movingTarget (cs_objects movingCanvas))) ?thr \<and>
        c_left moved =
          (if filter (\<lambda>g. guideType g = Vertical \<and> \<bar>fst pos - position g\<bar> < ?thr) guides = []
           then fst pos
           else position (last (filter (\<lambda>g. guideType g = Vertical \<and> \<bar>fst pos - position g\<bar> < ?thr) guides))) \<and>
        c_top moved =
          (if filter (\<lambda>g. guideType g \<noteq> Vertical \<and> \<bar>snd pos - position g\<bar> < ?thr) guides = []
           then snd pos
           else position (last (filter (\<lambda>g. guideType g \<noteq> Vertical \<and> \<bar>snd pos - position g\<bar> < ?thr) guides)))"
    by blast
  have pv: "pos = (100, 200)"
    unfolding p by (simp add: movingCanvas_def movingTarget_def exampleSnap_def)
  have gv: "guides = [\<lparr>guideType = Vertical, position = 103, relatedId = ''o1''\<rparr>]"
    using on a unfolding pv th
    by (simp add: movingCanvas_def movingTarget_def exampleLeftGuides_def currentBounds_def otherBounds_def
        otherObjects_def idOr_def js_or_def)
  have l: "c_left moved = 103" and t: "c_top moved = 200"
    using on a unfolding pv th gv by simp_all
  show ?thesis using a gv l t unfolding m g by (intro conjI)
qed

end
